theory Spec2Isabelle
  imports Complex_Main
begin

section \<open>Button states (controls.ts)\<close>

text \<open>
  \<^verbatim>\<open>createButtonState()\<close> returns \<^verbatim>\<open>{ $button: true, down: false, pressed: false,
  released: false }\<close>. A property of the controls object either holds such a button
  state or some other value without the \<^verbatim>\<open>$button\<close> marker (\<^verbatim>\<open>scrollDelta\<close>,
  \<^verbatim>\<open>pointer\<close>), or is absent.
\<close>

record button_state =
  down :: bool
  pressed :: bool
  released :: bool

datatype slot = Button button_state | NonButton

definition createButtonState :: button_state where
  "createButtonState = \<lparr>down = False, pressed = False, released = False\<rparr>"

text \<open>Calls that leave the controls object: key writes and calls on the player or world.\<close>

datatype effect =
    KeySet string bool
  | NativeJump
  | Tween "(real \<times> real) option"
  | HeightSet real

text \<open>Callbacks handed to \<^verbatim>\<open>setTimeout\<close>.\<close>

datatype callback = JumpReset | RandomWalkFirstTick

section \<open>Vectors and quaternions (the operations of three.js the controls use)\<close>

text \<open>JavaScript numbers are idealised as reals: NaN and the infinities are not values here.\<close>

record vec3 =
  vx :: real
  vy :: real
  vz :: real

record quat =
  qx :: real
  qy :: real
  qz :: real
  qw :: real

definition setY :: "real \<Rightarrow> vec3 \<Rightarrow> vec3" where
  "setY y v = v\<lparr>vy := y\<rparr>"

definition sub3 :: "vec3 \<Rightarrow> vec3 \<Rightarrow> vec3" where
  "sub3 a b = \<lparr>vx = vx a - vx b, vy = vy a - vy b, vz = vz a - vz b\<rparr>"

definition dot3 :: "vec3 \<Rightarrow> vec3 \<Rightarrow> real" where
  "dot3 a b = vx a * vx b + vy a * vy b + vz a * vz b"

definition lengthSq :: "vec3 \<Rightarrow> real" where
  "lengthSq v = vx v * vx v + vy v * vy v + vz v * vz v"

definition length3 :: "vec3 \<Rightarrow> real" where
  "length3 v = sqrt (lengthSq v)"

definition distanceTo :: "vec3 \<Rightarrow> vec3 \<Rightarrow> real" where
  "distanceTo a b = length3 (sub3 a b)"

text \<open>\<^verbatim>\<open>normalize()\<close> is \<^verbatim>\<open>divideScalar(length() || 1)\<close>: the zero vector stays zero.\<close>

definition normalize3 :: "vec3 \<Rightarrow> vec3" where
  "normalize3 v =
     (let l = (if length3 v = 0 then 1 else length3 v)
      in \<lparr>vx = vx v / l, vy = vy v / l, vz = vz v / l\<rparr>)"

definition crossVectors :: "vec3 \<Rightarrow> vec3 \<Rightarrow> vec3" where
  "crossVectors a b =
     \<lparr>vx = vy a * vz b - vz a * vy b,
      vy = vz a * vx b - vx a * vz b,
      vz = vx a * vy b - vy a * vx b\<rparr>"

definition clamp :: "real \<Rightarrow> real \<Rightarrow> real \<Rightarrow> real" where
  "clamp v lo hi = max lo (min hi v)"

text \<open>\<^verbatim>\<open>angleTo\<close> returns \<open>\<pi>/2\<close> when either vector has length zero.\<close>

definition angleTo :: "vec3 \<Rightarrow> vec3 \<Rightarrow> real" where
  "angleTo a b =
     (let denominator = sqrt (lengthSq a * lengthSq b)
      in if denominator = 0 then pi / 2
         else arccos (clamp (dot3 a b / denominator) (- 1) 1))"

text \<open>Quaternion \<^verbatim>\<open>normalize()\<close>: the zero quaternion becomes the identity.\<close>

definition qlength :: "quat \<Rightarrow> real" where
  "qlength q = sqrt (qx q * qx q + qy q * qy q + qz q * qz q + qw q * qw q)"

definition qnormalize :: "quat \<Rightarrow> quat" where
  "qnormalize q =
     (if qlength q = 0 then \<lparr>qx = 0, qy = 0, qz = 0, qw = 1\<rparr>
      else \<lparr>qx = qx q / qlength q, qy = qy q / qlength q,
            qz = qz q / qlength q, qw = qw q / qlength q\<rparr>)"

text \<open>\<^verbatim>\<open>applyQuaternion\<close>: \<open>t = 2 (q \<times> v)\<close>, result \<open>v + w t + q \<times> t\<close>.\<close>

definition applyQuaternion :: "quat \<Rightarrow> vec3 \<Rightarrow> vec3" where
  "applyQuaternion q v =
     (let tx = 2 * (qy q * vz v - qz q * vy v);
          ty = 2 * (qz q * vx v - qx q * vz v);
          tz = 2 * (qx q * vy v - qy q * vx v)
      in \<lparr>vx = vx v + qw q * tx + qy q * tz - qz q * ty,
          vy = vy v + qw q * ty + qz q * tx - qx q * tz,
          vz = vz v + qw q * tz + qx q * ty - qy q * tx\<rparr>)"

section \<open>The world as the controls read it\<close>

text \<open>
  A component is \<open>None\<close> when \<^verbatim>\<open>typeof\<close> of it is not \<^verbatim>\<open>'number'\<close>; \<open>isVector3\<close> and
  \<open>isQuaternion\<close> are the \<^verbatim>\<open>instanceof\<close> tests of \<^verbatim>\<open>_validatePlayerState\<close>.
\<close>

record js_position =
  isVector3 :: bool
  px :: "real option"
  py :: "real option"
  pz :: "real option"

record js_quaternion =
  isQuaternion :: bool
  rx :: "real option"
  ry :: "real option"
  rz :: "real option"
  rw :: "real option"

record base_node =
  position :: "js_position option"
  quaternion :: "js_quaternion option"

text \<open>
  \<open>jumpFn\<close> is \<open>None\<close> when \<^verbatim>\<open>player.jump\<close> is not a function, and otherwise tells
  whether the call throws; likewise \<open>tweenFn\<close> for \<^verbatim>\<open>world.tween\<close>.
\<close>

record player_entity =
  base :: "base_node option"
  jumpFn :: "bool option"
  setHeightFn :: "bool option"

record world =
  player :: "player_entity option"
  tweenFn :: "bool option"

section \<open>AgentControls\<close>

record nav_keys =
  forward :: bool
  backward :: bool
  left :: bool
  right :: bool

definition noKeys :: nav_keys where
  "noKeys = \<lparr>forward = False, backward = False, left = False, right = False\<rparr>"

record controls =
  slots :: "string \<Rightarrow> slot option"
  world :: world
  navigationTarget :: "vec3 option"
  isNavigating :: bool
  navigationIntervalId :: "nat option"
  currentNavKeys :: nav_keys
  stopReason :: "string option"
  isWalkingRandomly :: bool
  randomWalkIntervalId :: "nat option"
  randomWalkIntervalMs :: real
  randomWalkMaxDistance :: real
  isJumping :: bool
  isCrouching :: bool
  jumpCooldown :: int
  lastJumpTime :: int
  normalHeight :: real
  crouchHeight :: real
  nextTimerId :: nat
  timeouts :: "(int \<times> callback) list"
  effects :: "effect list"

definition NAVIGATION_STOP_DISTANCE :: real where
  "NAVIGATION_STOP_DISTANCE = 1"

definition RANDOM_WALK_DEFAULT_INTERVAL :: real where
  "RANDOM_WALK_DEFAULT_INTERVAL = 5000"

definition RANDOM_WALK_DEFAULT_MAX_DISTANCE :: real where
  "RANDOM_WALK_DEFAULT_MAX_DISTANCE = 7"

definition commonKeys :: "string list" where
  "commonKeys =
     [''keyW'', ''keyA'', ''keyS'', ''keyD'', ''space'', ''shiftLeft'', ''shiftRight'',
      ''controlLeft'', ''keyC'', ''keyF'', ''keyE'', ''arrowUp'', ''arrowDown'',
      ''arrowLeft'', ''arrowRight'', ''touchA'', ''touchB'', ''xrLeftStick'',
      ''xrRightStick'', ''xrLeftBtn1'', ''xrLeftBtn2'', ''xrRightBtn1'', ''xrRightBtn2'']"

text \<open>The constructor: the field initialisers, then a button state for each common key.\<close>

definition initialSlots :: "string \<Rightarrow> slot option" where
  "initialSlots k =
     (if k \<in> set commonKeys then Some (Button createButtonState)
      else if k = ''scrollDelta'' \<or> k = ''pointer'' then Some NonButton
      else None)"

definition newControls :: "world \<Rightarrow> controls" where
  "newControls w =
     \<lparr>slots = initialSlots, world = w, navigationTarget = None, isNavigating = False,
      navigationIntervalId = None, currentNavKeys = noKeys, stopReason = None,
      isWalkingRandomly = False, randomWalkIntervalId = None,
      randomWalkIntervalMs = RANDOM_WALK_DEFAULT_INTERVAL,
      randomWalkMaxDistance = RANDOM_WALK_DEFAULT_MAX_DISTANCE,
      isJumping = False, isCrouching = False, jumpCooldown = 1000, lastJumpTime = 0,
      normalHeight = 1.7, crouchHeight = 0.9, nextTimerId = 0, timeouts = [],
      effects = []\<rparr>"

text \<open>
  \<^verbatim>\<open>setKey(keyName, isDown)\<close>: a missing or non-button property is replaced by a fresh
  button state, then the edge flags are set from the change of \<open>down\<close>.
\<close>

definition buttonOf :: "slot option \<Rightarrow> button_state" where
  "buttonOf s = (case s of Some (Button b) \<Rightarrow> b | _ \<Rightarrow> createButtonState)"

definition setKey :: "string \<Rightarrow> bool \<Rightarrow> controls \<Rightarrow> controls" where
  "setKey keyName isDown c =
     (let state = buttonOf (slots c keyName);
          state1 = (if isDown \<and> \<not> down state then state\<lparr>pressed := True, released := False\<rparr>
                    else if \<not> isDown \<and> down state then state\<lparr>released := True, pressed := False\<rparr>
                    else state)
      in c\<lparr>slots := (slots c)(keyName \<mapsto> Button (state1\<lparr>down := isDown\<rparr>)),
           effects := effects c @ [KeySet keyName isDown]\<rparr>)"

text \<open>\<^verbatim>\<open>postLateUpdate()\<close> clears the edge flags of every button state.\<close>

definition postLateUpdate :: "controls \<Rightarrow> controls" where
  "postLateUpdate c =
     c\<lparr>slots := (\<lambda>k. case slots c k of
                        Some (Button b) \<Rightarrow> Some (Button (b\<lparr>pressed := False, released := False\<rparr>))
                      | other \<Rightarrow> other)\<rparr>"

section \<open>Navigation\<close>

text \<open>
  \<^verbatim>\<open>stopNavigation(reason)\<close> and \<^verbatim>\<open>stopRandomWalk(reason)\<close> call each other; the reason
  strings \<^verbatim>\<open>"navigation stopped"\<close> and \<^verbatim>\<open>"random walk tick"\<close> cut the cycle.
\<close>

function stopNavigation :: "string \<Rightarrow> controls \<Rightarrow> controls"
  and stopRandomWalk :: "string \<Rightarrow> controls \<Rightarrow> controls" where
  "stopNavigation reason c =
     (if isNavigating c \<or> navigationIntervalId c \<noteq> None then
        (let c1 = c\<lparr>stopReason := Some reason, navigationIntervalId := None,
                     isNavigating := False, navigationTarget := None\<rparr>;
             c2 = setKey ''shiftLeft'' False (setKey ''keyD'' False (setKey ''keyS'' False
                    (setKey ''keyA'' False (setKey ''keyW'' False c1))));
             c3 = c2\<lparr>currentNavKeys := noKeys\<rparr>
         in if reason \<noteq> ''random walk tick'' then stopRandomWalk ''navigation stopped'' c3
            else c3)
      else c)"
| "stopRandomWalk reason c =
     (if \<not> isWalkingRandomly c \<and> randomWalkIntervalId c = None then c
      else (let c1 = c\<lparr>randomWalkIntervalId := None, isWalkingRandomly := False\<rparr>
            in if reason \<noteq> ''navigation stopped'' then stopNavigation ''random walk stopped'' c1
               else c1))"
  by pat_completeness auto
termination
  by (relation "measure (\<lambda>x. case x of Inl (r, c) \<Rightarrow> 1
                  | Inr (r, c) \<Rightarrow> if r = ''navigation stopped'' then 0 else 2)") auto

declare stopNavigation.simps [simp del]
declare stopRandomWalk.simps [simp del]

definition getIsNavigating :: "controls \<Rightarrow> bool" where
  "getIsNavigating c = isNavigating c"

definition getIsWalkingRandomly :: "controls \<Rightarrow> bool" where
  "getIsWalkingRandomly c = isWalkingRandomly c"

text \<open>The checks of \<^verbatim>\<open>navigateTo\<close> on the player's position and quaternion.\<close>

definition positionXZNumeric :: "js_position option \<Rightarrow> bool" where
  "positionXZNumeric pos = (case pos of None \<Rightarrow> False | Some p \<Rightarrow> px p \<noteq> None \<and> pz p \<noteq> None)"

definition quaternionNumeric :: "js_quaternion option \<Rightarrow> bool" where
  "quaternionNumeric quat =
     (case quat of None \<Rightarrow> False
      | Some q \<Rightarrow> rx q \<noteq> None \<and> ry q \<noteq> None \<and> rz q \<noteq> None \<and> rw q \<noteq> None)"

definition navigateTo :: "real \<Rightarrow> real \<Rightarrow> controls \<Rightarrow> controls" where
  "navigateTo x z c =
     (case player (world c) of
        None \<Rightarrow> stopNavigation ''error - player missing'' c
      | Some p \<Rightarrow>
         (case base p of
            None \<Rightarrow> stopNavigation ''error - player base missing'' c
          | Some b \<Rightarrow>
             if \<not> positionXZNumeric (position b)
               then stopNavigation ''error - invalid position values'' c
             else if \<not> quaternionNumeric (quaternion b)
               then stopNavigation ''error - invalid quaternion values'' c
             else
               (let c1 = stopNavigation ''starting new navigation'' c;
                    c2 = c1\<lparr>navigationTarget := Some \<lparr>vx = x, vy = 0, vz = z\<rparr>,
                             isNavigating := True, stopReason := None,
                             currentNavKeys := noKeys\<rparr>
                in if navigationIntervalId c2 = None
                   then c2\<lparr>navigationIntervalId := Some (nextTimerId c2),
                           nextTimerId := Suc (nextTimerId c2)\<rparr>
                   else c2)))"

text \<open>
  The pose read by \<^verbatim>\<open>_navigationTick\<close>: every component must be a number; the quaternion
  is normalised. \<open>Inl\<close> carries the reason passed to \<^verbatim>\<open>stopNavigation\<close>.
\<close>

definition numericPosition :: "js_position option \<Rightarrow> vec3 option" where
  "numericPosition pos =
     (case pos of
        None \<Rightarrow> None
      | Some p \<Rightarrow>
         (case (px p, py p, pz p) of
            (Some x, Some y, Some z) \<Rightarrow> Some \<lparr>vx = x, vy = y, vz = z\<rparr>
          | _ \<Rightarrow> None))"

definition numericQuaternion :: "js_quaternion option \<Rightarrow> quat option" where
  "numericQuaternion quat =
     (case quat of
        None \<Rightarrow> None
      | Some q \<Rightarrow>
         (case (rx q, ry q, rz q, rw q) of
            (Some a, Some b, Some c, Some d) \<Rightarrow> Some \<lparr>qx = a, qy = b, qz = c, qw = d\<rparr>
          | _ \<Rightarrow> None))"

definition tickPose :: "base_node \<Rightarrow> string + (vec3 \<times> quat)" where
  "tickPose b =
     (case numericPosition (position b) of
        None \<Rightarrow> Inl ''tick error - invalid position values''
      | Some playerPosition \<Rightarrow>
         (case numericQuaternion (quaternion b) of
            None \<Rightarrow> Inl ''tick error - invalid quaternion values''
          | Some q \<Rightarrow> Inr (playerPosition, qnormalize q)))"

definition signedAngleOf :: "vec3 \<Rightarrow> vec3 \<Rightarrow> real" where
  "signedAngleOf forwardWorld directionWorld =
     (let angle = angleTo forwardWorld directionWorld;
          cross = crossVectors forwardWorld directionWorld
      in if vy cross < 0 then - angle else angle)"

definition forwardThreshold :: real where
  "forwardThreshold = pi / 18"

definition turnThreshold :: real where
  "turnThreshold = pi / 4"

definition desiredKeys :: "real \<Rightarrow> nav_keys" where
  "desiredKeys signedAngle =
     (if \<bar>signedAngle\<bar> > turnThreshold then
        (if signedAngle < 0 then noKeys\<lparr>left := True\<rparr> else noKeys\<lparr>right := True\<rparr>)
      else
        (let d = noKeys\<lparr>forward := True\<rparr>
         in if \<bar>signedAngle\<bar> > forwardThreshold then
              (if signedAngle < 0 then d\<lparr>left := True\<rparr> else d\<lparr>right := True\<rparr>)
            else d))"

definition applyKeys :: "nav_keys \<Rightarrow> controls \<Rightarrow> controls" where
  "applyKeys desired c =
     (let c1 = (if forward desired \<noteq> forward (currentNavKeys c)
                then (setKey ''keyW'' (forward desired) c)
                       \<lparr>currentNavKeys := (currentNavKeys c)\<lparr>forward := forward desired\<rparr>\<rparr>
                else c);
          c2 = (if left desired \<noteq> left (currentNavKeys c1)
                then (setKey ''keyA'' (left desired) c1)
                       \<lparr>currentNavKeys := (currentNavKeys c1)\<lparr>left := left desired\<rparr>\<rparr>
                else c1);
          c3 = (if right desired \<noteq> right (currentNavKeys c2)
                then (setKey ''keyD'' (right desired) c2)
                       \<lparr>currentNavKeys := (currentNavKeys c2)\<lparr>right := right desired\<rparr>\<rparr>
                else c2);
          c4 = (if backward (currentNavKeys c3)
                then (setKey ''keyS'' False c3)
                       \<lparr>currentNavKeys := (currentNavKeys c3)\<lparr>backward := False\<rparr>\<rparr>
                else c3)
      in setKey ''shiftLeft'' False c4)"

definition holdPosition :: "controls \<Rightarrow> controls" where
  "holdPosition c =
     (setKey ''keyS'' False (setKey ''keyD'' False (setKey ''keyA'' False
        (setKey ''keyW'' False c))))\<lparr>currentNavKeys := noKeys\<rparr>"

definition directionWorldOf :: "vec3 \<Rightarrow> vec3 \<Rightarrow> vec3" where
  "directionWorldOf target playerPosition = normalize3 (setY 0 (sub3 target playerPosition))"

definition forwardWorldOf :: "quat \<Rightarrow> vec3" where
  "forwardWorldOf playerQuaternion =
     normalize3 (setY 0 (applyQuaternion playerQuaternion \<lparr>vx = 0, vy = 0, vz = - 1\<rparr>))"

definition distanceXZOf :: "vec3 \<Rightarrow> vec3 \<Rightarrow> real" where
  "distanceXZOf playerPosition target = distanceTo (setY 0 playerPosition) (setY 0 target)"

definition navigationTick :: "controls \<Rightarrow> controls" where
  "navigationTick c =
     (case navigationTarget c of
        None \<Rightarrow> c\<lparr>navigationIntervalId := None\<rparr>
      | Some target \<Rightarrow>
         if \<not> isNavigating c then c\<lparr>navigationIntervalId := None\<rparr>
         else
          (case player (world c) of
             None \<Rightarrow> stopNavigation ''tick error - player missing'' c
           | Some p \<Rightarrow>
              (case base p of
                 None \<Rightarrow> stopNavigation ''tick error - player base missing'' c
               | Some b \<Rightarrow>
                  (case tickPose b of
                     Inl reason \<Rightarrow> stopNavigation reason c
                   | Inr (playerPosition, playerQuaternion) \<Rightarrow>
                      if distanceXZOf playerPosition target \<le> NAVIGATION_STOP_DISTANCE
                        then stopNavigation ''reached target'' c
                      else
                       (let directionWorld = directionWorldOf target playerPosition;
                            forwardWorld = forwardWorldOf playerQuaternion
                        in if lengthSq forwardWorld < 0.001 then holdPosition c
                           else if lengthSq directionWorld < 0.001 then holdPosition c
                           else applyKeys
                                  (desiredKeys (signedAngleOf forwardWorld directionWorld)) c)))))"

section \<open>Random walk\<close>

definition startRandomWalk :: "real \<Rightarrow> real \<Rightarrow> controls \<Rightarrow> controls" where
  "startRandomWalk intervalMs maxDistance c =
     (let c0 = (if isWalkingRandomly c then stopRandomWalk ''restarting'' c else c)
      in c0\<lparr>isWalkingRandomly := True, randomWalkIntervalMs := intervalMs,
            randomWalkMaxDistance := maxDistance,
            randomWalkIntervalId := Some (nextTimerId c0),
            nextTimerId := Suc (nextTimerId c0),
            timeouts := timeouts c0 @ [(100, RandomWalkFirstTick)]\<rparr>)"

text \<open>The position used by \<^verbatim>\<open>_randomWalkTick\<close>, with its default \<open>(0, 0, 0)\<close>.\<close>

definition randomWalkPosition :: "world \<Rightarrow> vec3" where
  "randomWalkPosition w =
     (case player w of
        None \<Rightarrow> \<lparr>vx = 0, vy = 0, vz = 0\<rparr>
      | Some p \<Rightarrow>
         (case base p of
            None \<Rightarrow> \<lparr>vx = 0, vy = 0, vz = 0\<rparr>
          | Some b \<Rightarrow>
             (case numericPosition (position b) of
                None \<Rightarrow> \<lparr>vx = 0, vy = 0, vz = 0\<rparr>
              | Some v \<Rightarrow> v)))"

text \<open>\<open>random1\<close> and \<open>random2\<close> are the two results of \<^verbatim>\<open>Math.random()\<close>.\<close>

definition randomWalkTick :: "real \<Rightarrow> real \<Rightarrow> controls \<Rightarrow> controls" where
  "randomWalkTick random1 random2 c =
     (if \<not> isWalkingRandomly c then c
      else
       (let currentPos = randomWalkPosition (world c);
            randomAngle = random1 * pi * 2;
            randomDistance = random2 * randomWalkMaxDistance c;
            offsetX = cos randomAngle * randomDistance;
            offsetZ = sin randomAngle * randomDistance;
            targetX = vx currentPos + offsetX;
            targetZ = vz currentPos + offsetZ
        in navigateTo targetX targetZ c))"

section \<open>Jump and crouch\<close>

text \<open>
  \<^verbatim>\<open>_validatePlayerState\<close>: the \<^verbatim>\<open>instanceof\<close> and \<^verbatim>\<open>isNaN\<close> tests (a component that is
  not a number counts as NaN), then the quaternion of the player is normalised in place
  when its squared length is off by more than 0.01.
\<close>

definition renormalized :: "js_quaternion \<Rightarrow> quat \<Rightarrow> js_quaternion" where
  "renormalized jq q =
     (let lsq = qx q * qx q + qy q * qy q + qz q * qz q + qw q * qw q
      in if \<bar>lsq - 1\<bar> > 0.01
         then (let n = qnormalize q
               in jq\<lparr>rx := Some (qx n), ry := Some (qy n), rz := Some (qz n), rw := Some (qw n)\<rparr>)
         else jq)"

definition validatePlayerState :: "controls \<Rightarrow> bool \<times> controls" where
  "validatePlayerState c =
     (case player (world c) of
        None \<Rightarrow> (False, c)
      | Some p \<Rightarrow>
         (case base p of
            None \<Rightarrow> (False, c)
          | Some b \<Rightarrow>
             (case position b of
                None \<Rightarrow> (False, c)
              | Some pos \<Rightarrow>
                 if \<not> isVector3 pos then (False, c)
                 else if numericPosition (Some pos) = None then (False, c)
                 else
                  (case quaternion b of
                     None \<Rightarrow> (False, c)
                   | Some jq \<Rightarrow>
                      if \<not> isQuaternion jq then (False, c)
                      else
                       (case numericQuaternion (Some jq) of
                          None \<Rightarrow> (False, c)
                        | Some q \<Rightarrow>
                           (True,
                            c\<lparr>world := (world c)\<lparr>player :=
                                 Some (p\<lparr>base := Some (b\<lparr>quaternion :=
                                   Some (renormalized jq q)\<rparr>)\<rparr>)\<rparr>\<rparr>))))))"

text \<open>
  The body of the \<^verbatim>\<open>try\<close> in \<^verbatim>\<open>jump()\<close>: the native jump when the player has one,
  otherwise a tween of the height when the world has one. An exception is caught.
\<close>

definition performJump :: "player_entity \<Rightarrow> controls \<Rightarrow> controls" where
  "performJump p c =
     (case jumpFn p of
        Some throws \<Rightarrow> c\<lparr>effects := effects c @ [NativeJump]\<rparr>
      | None \<Rightarrow>
         (case base p of
            None \<Rightarrow> c
          | Some b \<Rightarrow>
             (case position b of
                None \<Rightarrow> c
              | Some pos \<Rightarrow>
                 (case tweenFn (world c) of
                    None \<Rightarrow> c
                  | Some throws \<Rightarrow>
                     c\<lparr>effects := effects c @
                          [Tween (case py pos of None \<Rightarrow> None
                                  | Some y \<Rightarrow> Some (y, y + 0.5))]\<rparr>))))"

text \<open>\<open>currentTime\<close> is the result of \<^verbatim>\<open>Date.now()\<close>.\<close>

definition jump :: "int \<Rightarrow> controls \<Rightarrow> controls" where
  "jump currentTime c =
     (case player (world c) of
        None \<Rightarrow> c
      | Some p \<Rightarrow>
         if isJumping c then c
         else if currentTime - lastJumpTime c < jumpCooldown c then c
         else
          (let c1 = c\<lparr>isJumping := True, lastJumpTime := currentTime\<rparr>;
               c2 = performJump p c1
           in c2\<lparr>timeouts := timeouts c2 @ [(800, JumpReset)]\<rparr>))"

definition toggleCrouch :: "controls \<Rightarrow> controls" where
  "toggleCrouch c =
     (case validatePlayerState c of
        (False, c0) \<Rightarrow> c0
      | (True, c0) \<Rightarrow>
         (let c1 = c0\<lparr>isCrouching := \<not> isCrouching c0\<rparr>;
              c2 = setKey ''controlLeft'' (isCrouching c1) c1;
              c3 = (if isJumping c2 \<and> isCrouching c2
                    then setKey ''controlLeft'' False (c2\<lparr>isCrouching := False\<rparr>)
                    else c2);
              height = (if isCrouching c3 then crouchHeight c3 else normalHeight c3)
          in case player (world c3) of
               None \<Rightarrow> c3
             | Some p \<Rightarrow>
                (case base p of
                   None \<Rightarrow> c3
                 | Some b \<Rightarrow>
                    (case setHeightFn p of
                       None \<Rightarrow> c3
                     | Some throws \<Rightarrow> c3\<lparr>effects := effects c3 @ [HeightSet height]\<rparr>))))"

definition getIsJumping :: "controls \<Rightarrow> bool" where
  "getIsJumping c = isJumping c"

definition getIsCrouching :: "controls \<Rightarrow> bool" where
  "getIsCrouching c = isCrouching c"

text \<open>Running a callback registered with \<^verbatim>\<open>setTimeout\<close>.\<close>

definition runCallback :: "real \<Rightarrow> real \<Rightarrow> callback \<Rightarrow> controls \<Rightarrow> controls" where
  "runCallback random1 random2 cb c =
     (case cb of
        JumpReset \<Rightarrow> c\<lparr>isJumping := False\<rparr>
      | RandomWalkFirstTick \<Rightarrow> randomWalkTick random1 random2 c)"

text \<open>A call of the public control surface.\<close>

datatype motion_call = Jump int | ToggleCrouch

fun runMotion :: "motion_call \<Rightarrow> controls \<Rightarrow> controls" where
  "runMotion (Jump currentTime) c = jump currentTime c"
| "runMotion ToggleCrouch c = toggleCrouch c"

definition runMotions :: "motion_call list \<Rightarrow> controls \<Rightarrow> controls" where
  "runMotions calls c = foldl (\<lambda>st call. runMotion call st) c calls"

text \<open>Firing the \<open>i\<close>-th pending timeout removes it and runs its callback.\<close>

definition fireTimeout :: "real \<Rightarrow> real \<Rightarrow> nat \<Rightarrow> controls \<Rightarrow> controls" where
  "fireTimeout random1 random2 i c =
     (if i < length (timeouts c)
      then runCallback random1 random2 (snd (timeouts c ! i))
             (c\<lparr>timeouts := take i (timeouts c) @ drop (Suc i) (timeouts c)\<rparr>)
      else c)"

section \<open>HyperfyService (service.ts)\<close>

datatype error = Error string

text \<open>
  A chat message: \<open>msgId\<close> is \<open>None\<close> when \<^verbatim>\<open>msg.id\<close> is absent; \<open>createdAt\<close> is the time
  value of \<^verbatim>\<open>new Date(msg.createdAt)\<close>, \<open>None\<close> when the field is absent or no date.
\<close>

record chat_msg =
  msgId :: "string option"
  createdAt :: "int option"
  body :: string

record chat_system =
  msgs :: "chat_msg list option"
  subscribeFn :: bool
  subscribers :: nat

record entity =
  entityId :: string
  dataType :: "string option"
  dataName :: "string option"
  entityPosition :: "real list option"
  entityRotation :: "real list option"

record entity_state =
  stateId :: string
  stateType :: string
  stateName :: "string option"
  statePosition :: "real list option"
  stateRotation :: "real list option"

text \<open>
  The world object returned by \<^verbatim>\<open>createNodeClientWorld()\<close>, as far as the service
  inspects it. A function-valued field is \<open>None\<close> when it is not a function and otherwise
  holds the outcome of calling it (\<open>Some e\<close>: it throws \<open>e\<close>).
\<close>

record client_world =
  scene :: world
  initFn :: "error option option"
  entitiesOnFn :: bool
  entitiesOffFn :: "error option option"
  items :: "entity list"
  chat :: "chat_system option"
  onFn :: bool
  networkDisconnectFn :: "error option option"
  destroyFn :: "error option option"
  tickFn :: bool

datatype timer = Timer (timerId: nat) (timerDelay: real)

datatype tick_error = DocumentNotDefined | OtherError string

datatype log_entry =
    SuppressedWarning real
  | TickErrorLogged real tick_error

text \<open>
  Calls on the world object. A call of \<^verbatim>\<open>entities.on\<close> or \<^verbatim>\<open>entities.off\<close> carries the
  event name and the identity of the function object passed: every
  \<^verbatim>\<open>listener.bind(this)\<close> makes a new one.
\<close>

datatype service_call =
    EntitiesOff string nat
  | EntitiesOn string nat
  | NetworkDisconnect
  | WorldDestroy

record service =
  serviceWorld :: "client_world option"
  serviceControls :: "controls option"
  isConnectedState :: bool
  currentEntities :: "string \<rightharpoonup> entity_state"
  agentState :: "real list option \<times> real list option"
  tickIntervalId :: "timer option"
  entityUpdateIntervalId :: "timer option"
  wsUrl :: "string option"
  currentWorldId :: "string option"
  processedMsgIds :: "string set"
  randomMoveIntervalId :: "timer option"
  randomChatIntervalId :: "timer option"
  playerNamesMap :: "string \<rightharpoonup> string"
  appearanceIntervalId :: "timer option"
  appearanceSet :: bool
  nameSet :: bool
  isPhysicsSetup :: bool
  connectionTime :: "int option"
  managersBuilt :: bool
  lastTickTime :: real
  lastTickErrorLogTime :: real
  nextTimer :: nat
  dispatched :: "chat_msg list"
  tickLog :: "log_entry list"
  serviceCalls :: "service_call list"
  nextBound :: nat

definition HYPERFY_TICK_RATE :: real where
  "HYPERFY_TICK_RATE = 50"

definition HYPERFY_APPEARANCE_POLL_INTERVAL :: real where
  "HYPERFY_APPEARANCE_POLL_INTERVAL = 30000"

definition HYPERFY_ENTITY_UPDATE_INTERVAL :: real where
  "HYPERFY_ENTITY_UPDATE_INTERVAL = 1000"

definition newService :: service where
  "newService =
     \<lparr>serviceWorld = None, serviceControls = None, isConnectedState = False,
      currentEntities = Map.empty, agentState = (None, None), tickIntervalId = None,
      entityUpdateIntervalId = None, wsUrl = None, currentWorldId = None,
      processedMsgIds = {}, randomMoveIntervalId = None, randomChatIntervalId = None,
      playerNamesMap = Map.empty, appearanceIntervalId = None, appearanceSet = False,
      nameSet = False, isPhysicsSetup = False, connectionTime = None,
      managersBuilt = False, lastTickTime = 0, lastTickErrorLogTime = 0, nextTimer = 0,
      dispatched = [], tickLog = [], serviceCalls = [], nextBound = 0\<rparr>"

definition isConnected :: "service \<Rightarrow> bool" where
  "isConnected s = isConnectedState s"

subsection \<open>Entity listeners\<close>

definition extractEntityState :: "service \<Rightarrow> entity \<Rightarrow> entity_state" where
  "extractEntityState s e =
     \<lparr>stateId = entityId e,
      stateType = (case dataType e of None \<Rightarrow> ''unknown''
                   | Some t \<Rightarrow> if t = [] then ''unknown'' else t),
      stateName =
        (let own = (case dataName e of None \<Rightarrow> None
                    | Some n \<Rightarrow> if n = [] then None else Some n)
         in if dataType e = Some ''player'' \<and> playerNamesMap s (entityId e) \<noteq> None
            then (case playerNamesMap s (entityId e) of
                    Some n \<Rightarrow> if n = [] then own else Some n
                  | None \<Rightarrow> own)
            else own),
      statePosition = entityPosition e,
      stateRotation = entityRotation e\<rparr>"

definition entityAddedListener :: "entity \<Rightarrow> service \<Rightarrow> service" where
  "entityAddedListener e s =
     (if entityId e = [] then s
      else
       (let s1 = (case dataName e of
                    None \<Rightarrow> s
                  | Some n \<Rightarrow>
                     if dataType e = Some ''player'' \<and> n \<noteq> []
                        \<and> playerNamesMap s (entityId e) = None
                     then s\<lparr>playerNamesMap := (playerNamesMap s)(entityId e \<mapsto> n)\<rparr>
                     else s)
        in s1\<lparr>currentEntities :=
                (currentEntities s1)(entityId e \<mapsto> extractEntityState s1 e)\<rparr>))"

definition entityRemovedListener :: "string \<Rightarrow> service \<Rightarrow> service" where
  "entityRemovedListener eid s =
     (if eid = [] then s
      else s\<lparr>playerNamesMap := (playerNamesMap s)(eid := None),
             currentEntities := (currentEntities s)(eid := None)\<rparr>)"

subsection \<open>Chat subscription\<close>

definition messageTimestamp :: "chat_msg \<Rightarrow> int" where
  "messageTimestamp msg = (case createdAt msg of None \<Rightarrow> 0 | Some t \<Rightarrow> t)"

text \<open>
  One iteration of the \<^verbatim>\<open>msgs.forEach\<close> of the subscription callback, on the processed
  ids and the list \<^verbatim>\<open>newMessagesFound\<close>. An id is truthy when it is a non-empty string.
\<close>

definition chatStep ::
  "int \<Rightarrow> chat_msg \<Rightarrow> string set \<times> chat_msg list \<Rightarrow> string set \<times> chat_msg list" where
  "chatStep connTime msg acc =
     (case acc of (ids, newMessagesFound) \<Rightarrow>
        if messageTimestamp msg = 0 \<or> messageTimestamp msg \<le> connTime then
          (case msgId msg of
             None \<Rightarrow> (ids, newMessagesFound)
           | Some i \<Rightarrow>
              if i \<noteq> [] \<and> i \<notin> ids then (insert i ids, newMessagesFound)
              else (ids, newMessagesFound))
        else
          (case msgId msg of
             None \<Rightarrow> (ids, newMessagesFound)
           | Some msgIdStr \<Rightarrow>
              if msgIdStr \<noteq> [] \<and> msgIdStr \<notin> ids
              then (insert msgIdStr ids, newMessagesFound @ [msg])
              else (ids, newMessagesFound)))"

text \<open>Step 1 of the callback: identify the new messages and update the processed set.\<close>

definition identifyNew ::
  "int \<Rightarrow> chat_msg list \<Rightarrow> string set \<Rightarrow> string set \<times> chat_msg list" where
  "identifyNew connTime batch ids = foldl (\<lambda>acc msg. chatStep connTime msg acc) (ids, []) batch"

text \<open>Step 2: each new message is handed to \<^verbatim>\<open>messageManager.handleMessage\<close>, in order.\<close>

definition dispatchAll :: "chat_msg list \<Rightarrow> service \<Rightarrow> service" where
  "dispatchAll newMessagesFound s = s\<lparr>dispatched := dispatched s @ newMessagesFound\<rparr>"

text \<open>The guard at the head of the callback.\<close>

definition chatReady :: "service \<Rightarrow> bool" where
  "chatReady s =
     (case serviceWorld s of
        None \<Rightarrow> False
      | Some w \<Rightarrow>
         chat w \<noteq> None \<and> player (scene w) \<noteq> None
         \<and> (case connectionTime s of None \<Rightarrow> False | Some t \<Rightarrow> t \<noteq> 0))"

definition chatCallback :: "chat_msg list \<Rightarrow> service \<Rightarrow> service" where
  "chatCallback batch s =
     (if \<not> chatReady s then s
      else
       (case connectionTime s of
          None \<Rightarrow> s
        | Some connTime \<Rightarrow>
           (case identifyNew connTime batch (processedMsgIds s) of
              (ids, newMessagesFound) \<Rightarrow>
                dispatchAll newMessagesFound (s\<lparr>processedMsgIds := ids\<rparr>))))"

definition runBatches :: "chat_msg list list \<Rightarrow> service \<Rightarrow> service" where
  "runBatches batches s = foldl (\<lambda>st batch. chatCallback batch st) s batches"

text \<open>The ids added when the processed set is pre-populated: those of messages with a truthy id.\<close>

definition truthyId :: "chat_msg \<Rightarrow> string option" where
  "truthyId msg = (case msgId msg of None \<Rightarrow> None | Some i \<Rightarrow> if i = [] then None else Some i)"

definition historyIds :: "chat_msg list \<Rightarrow> string set" where
  "historyIds ms = set (List.map_filter truthyId ms)"

definition startChatSubscription :: "service \<Rightarrow> service" where
  "startChatSubscription s =
     (case serviceWorld s of
        None \<Rightarrow> s
      | Some w \<Rightarrow>
         (case chat w of
            None \<Rightarrow> s
          | Some ch \<Rightarrow>
             s\<lparr>processedMsgIds :=
                  processedMsgIds s \<union> (case msgs ch of None \<Rightarrow> {} | Some ms \<Rightarrow> historyIds ms),
               serviceWorld :=
                  Some (w\<lparr>chat := Some (ch\<lparr>subscribers := Suc (subscribers ch)\<rparr>)\<rparr>)\<rparr>))"

subsection \<open>Simulation loop\<close>

definition allocTimer :: "real \<Rightarrow> service \<Rightarrow> timer" where
  "allocTimer delay s = Timer (nextTimer s) delay"

definition tickIntervalMs :: real where
  "tickIntervalMs = 1000 / HYPERFY_TICK_RATE"

definition tickErrorLogInterval :: real where
  "tickErrorLogInterval = 10000"

definition startSimulation :: "service \<Rightarrow> service" where
  "startSimulation s =
     s\<lparr>lastTickErrorLogTime := 0,
       tickIntervalId := Some (allocTimer 0 s),
       nextTimer := Suc (nextTimer s)\<rparr>"

definition stopSimulation :: "service \<Rightarrow> service" where
  "stopSimulation s = (if tickIntervalId s \<noteq> None then s\<lparr>tickIntervalId := None\<rparr> else s)"

definition stopEntityUpdates :: "service \<Rightarrow> service" where
  "stopEntityUpdates s =
     (if entityUpdateIntervalId s \<noteq> None then s\<lparr>entityUpdateIntervalId := None\<rparr> else s)"

definition stopAppearancePolling :: "service \<Rightarrow> service" where
  "stopAppearancePolling s =
     (if appearanceIntervalId s \<noteq> None then s\<lparr>appearanceIntervalId := None\<rparr> else s)"

definition startEntityUpdates :: "service \<Rightarrow> service" where
  "startEntityUpdates s =
     s\<lparr>entityUpdateIntervalId := Some (allocTimer HYPERFY_ENTITY_UPDATE_INTERVAL s),
       nextTimer := Suc (nextTimer s)\<rparr>"

definition startAppearancePolling :: "service \<Rightarrow> service" where
  "startAppearancePolling s =
     (let s1 = s\<lparr>appearanceIntervalId := None\<rparr>
      in if appearanceSet s1 \<and> nameSet s1 then s1
         else s1\<lparr>appearanceIntervalId := Some (allocTimer HYPERFY_APPEARANCE_POLL_INTERVAL s1),
                 nextTimer := Suc (nextTimer s1)\<rparr>)"

subsection \<open>Disconnect\<close>

text \<open>
  The three calls \<^verbatim>\<open>entities.on\<close> or \<^verbatim>\<open>entities.off\<close> for the entity events, each with a
  newly bound listener; and the first of them alone, for the case that it throws.
\<close>

definition boundCalls :: "(string \<Rightarrow> nat \<Rightarrow> service_call) \<Rightarrow> service \<Rightarrow> service" where
  "boundCalls call s =
     s\<lparr>serviceCalls := serviceCalls s @
          [call ''entityAdded'' (nextBound s), call ''entityModified'' (nextBound s + 1),
           call ''entityRemoved'' (nextBound s + 2)],
       nextBound := nextBound s + 3\<rparr>"

definition firstBoundCall :: "(string \<Rightarrow> nat \<Rightarrow> service_call) \<Rightarrow> service \<Rightarrow> service" where
  "firstBoundCall call s =
     s\<lparr>serviceCalls := serviceCalls s @ [call ''entityAdded'' (nextBound s)],
       nextBound := nextBound s + 1\<rparr>"

text \<open>
  The \<^verbatim>\<open>try\<close> block of \<^verbatim>\<open>handleDisconnect\<close>: a throw of \<^verbatim>\<open>network.disconnect()\<close> is
  caught and skips \<^verbatim>\<open>world.destroy()\<close>.
\<close>

definition shutdownCalls :: "client_world \<Rightarrow> service_call list" where
  "shutdownCalls w =
     (case networkDisconnectFn w of
        None \<Rightarrow> (case destroyFn w of None \<Rightarrow> [] | Some r \<Rightarrow> [WorldDestroy])
      | Some (Some e) \<Rightarrow> [NetworkDisconnect]
      | Some None \<Rightarrow>
         NetworkDisconnect # (case destroyFn w of None \<Rightarrow> [] | Some r \<Rightarrow> [WorldDestroy]))"

definition shutdownWorld :: "client_world \<Rightarrow> service \<Rightarrow> service" where
  "shutdownWorld w s = s\<lparr>serviceCalls := serviceCalls s @ shutdownCalls w\<rparr>"

text \<open>The assignments that end \<^verbatim>\<open>handleDisconnect\<close>.\<close>

definition clearSession :: "service \<Rightarrow> service" where
  "clearSession s =
     s\<lparr>serviceWorld := None, serviceControls := None,
       currentEntities := Map.empty, playerNamesMap := Map.empty,
       agentState := (None, None), wsUrl := None, appearanceSet := False,
       isPhysicsSetup := False, processedMsgIds := {}, connectionTime := None,
       tickIntervalId := None, entityUpdateIntervalId := None,
       randomMoveIntervalId := None, randomChatIntervalId := None,
       appearanceIntervalId := None\<rparr>"

text \<open>
  \<^verbatim>\<open>handleDisconnect()\<close>: the result is \<open>Some e\<close> when the call rejects with \<open>e\<close>. The calls
  of \<^verbatim>\<open>entities.off\<close> stand before the \<^verbatim>\<open>try\<close>: when one throws, the rest of the function
  does not run.
\<close>

definition handleDisconnect :: "service \<Rightarrow> error option \<times> service" where
  "handleDisconnect s =
     (if \<not> isConnectedState s \<and> serviceWorld s = None then (None, s)
      else
       (let s1 = stopAppearancePolling (stopEntityUpdates (stopSimulation
                   (s\<lparr>isConnectedState := False\<rparr>)))
        in case serviceWorld s1 of
             None \<Rightarrow> (None, clearSession s1)
           | Some w \<Rightarrow>
              (case entitiesOffFn w of
                 None \<Rightarrow> (None, clearSession (shutdownWorld w s1))
               | Some (Some e) \<Rightarrow> (Some e, firstBoundCall EntitiesOff s1)
               | Some None \<Rightarrow>
                  (None, clearSession (shutdownWorld w (boundCalls EntitiesOff s1))))))"

definition disconnect :: "service \<Rightarrow> error option \<times> service" where
  "disconnect s = handleDisconnect s"

subsection \<open>One run of \<^verbatim>\<open>tickLoop\<close>\<close>

text \<open>
  What \<^verbatim>\<open>world.tick(now)\<close> does to the service: it may throw, and it may deliver the
  world's \<^verbatim>\<open>disconnect\<close> event, whose handler runs \<^verbatim>\<open>handleDisconnect\<close> without
  awaiting it.
\<close>

record tick_result =
  thrown :: "tick_error option"
  disconnectEvent :: bool

definition logTickError :: "real \<Rightarrow> tick_error \<Rightarrow> service \<Rightarrow> service" where
  "logTickError now e s =
     (case e of
        DocumentNotDefined \<Rightarrow>
          if now - lastTickErrorLogTime s > tickErrorLogInterval
          then s\<lparr>tickLog := tickLog s @ [SuppressedWarning now], lastTickErrorLogTime := now\<rparr>
          else s
      | OtherError m \<Rightarrow> s\<lparr>tickLog := tickLog s @ [TickErrorLogged now (OtherError m)]\<rparr>)"

text \<open>
  \<open>now\<close> and \<open>afterTick\<close> are the two readings of \<^verbatim>\<open>performance.now()\<close>, before and
  after the call of \<^verbatim>\<open>world.tick\<close>.
\<close>

definition tickLoop :: "real \<Rightarrow> real \<Rightarrow> tick_result \<Rightarrow> service \<Rightarrow> service" where
  "tickLoop now afterTick res s =
     (case serviceWorld s of
        None \<Rightarrow> stopSimulation s
      | Some w \<Rightarrow>
         if \<not> isConnectedState s then stopSimulation s
         else
          (let s1 = (if tickFn w
                     then (let s0 = (if disconnectEvent res then snd (handleDisconnect s) else s)
                           in case thrown res of None \<Rightarrow> s0 | Some e \<Rightarrow> logTickError now e s0)
                     else s);
               s2 = s1\<lparr>lastTickTime := now\<rparr>;
               elapsed = afterTick - now;
               delay = max 0 (tickIntervalMs - elapsed)
           in if tickIntervalId s2 \<noteq> None
              then s2\<lparr>tickIntervalId := Some (allocTimer delay s2),
                      nextTimer := Suc (nextTimer s2)\<rparr>
              else s2))"

subsection \<open>Connect\<close>

record config =
  cfgWsUrl :: string
  cfgAuthToken :: "string option"
  cfgWorldId :: string

text \<open>The places in the \<^verbatim>\<open>try\<close> block of \<^verbatim>\<open>connect\<close> where a collaborator may throw.\<close>

datatype step =
    CreateWorld | BuildLiveKit | BuildActions | BuildControls | BuildLoader
  | AttachListeners | EntitySync | DetachDisconnect | Subscribe | BuildManagers

text \<open>
  The collaborators of one call of \<^verbatim>\<open>connect\<close>: which step throws, the world that
  \<^verbatim>\<open>createNodeClientWorld()\<close> returns, how many entities are synchronised before a
  throw in the initial sync, and the reading of \<^verbatim>\<open>Date.now()\<close>.
\<close>

record connect_env =
  faults :: "step \<Rightarrow> error option"
  createdWorld :: client_world
  syncedBeforeFault :: nat
  dateNow :: int

fun runSteps ::
  "(service \<Rightarrow> error option \<times> service) list \<Rightarrow> service \<Rightarrow> error option \<times> service" where
  "runSteps [] s = (None, s)"
| "runSteps (f # fs) s =
     (case f s of (Some e, s1) \<Rightarrow> (Some e, s1) | (None, s1) \<Rightarrow> runSteps fs s1)"

definition mayThrow ::
  "connect_env \<Rightarrow> step \<Rightarrow> (service \<Rightarrow> service) \<Rightarrow> service \<Rightarrow> error option \<times> service" where
  "mayThrow env st f s = (case faults env st of Some e \<Rightarrow> (Some e, s) | None \<Rightarrow> (None, f s))"

text \<open>
  Patching \<^verbatim>\<open>world.chat.add\<close> throws when the world has no chat system; then the check
  and the call of \<^verbatim>\<open>world.init\<close>.
\<close>

definition stepInit :: "service \<Rightarrow> error option \<times> service" where
  "stepInit s =
     (case serviceWorld s of
        None \<Rightarrow> (Some (Error ''TypeError''), s)
      | Some w \<Rightarrow>
         (case chat w of
            None \<Rightarrow> (Some (Error ''TypeError''), s)
          | Some ch \<Rightarrow>
             (case initFn w of
                None \<Rightarrow> (Some (Error ''world.init is not a function''), s)
              | Some (Some e) \<Rightarrow> (Some e, s)
              | Some None \<Rightarrow> (None, s))))"

definition stepEntities :: "connect_env \<Rightarrow> service \<Rightarrow> error option \<times> service" where
  "stepEntities env s =
     (case serviceWorld s of
        None \<Rightarrow> (None, s)
      | Some w \<Rightarrow>
         if \<not> entitiesOnFn w then (None, s)
         else
          (case entitiesOffFn w of
             None \<Rightarrow> (Some (Error ''TypeError''), s)
           | Some (Some e) \<Rightarrow> (Some e, firstBoundCall EntitiesOff s)
           | Some None \<Rightarrow>
              (let s0 = boundCalls EntitiesOff s
               in case faults env AttachListeners of
                    Some e \<Rightarrow> (Some e, firstBoundCall EntitiesOn s0)
                  | None \<Rightarrow>
                     (let s1 = (boundCalls EntitiesOn s0)
                                 \<lparr>currentEntities := Map.empty, playerNamesMap := Map.empty\<rparr>
                      in case faults env EntitySync of
                           Some e \<Rightarrow>
                             (Some e, foldl (\<lambda>st e. entityAddedListener e st) s1
                                        (take (syncedBeforeFault env) (items w)))
                         | None \<Rightarrow>
                             (None, foldl (\<lambda>st e. entityAddedListener e st) s1 (items w))))))"

definition stepProcessedIds :: "service \<Rightarrow> error option \<times> service" where
  "stepProcessedIds s =
     (case serviceWorld s of
        None \<Rightarrow> (Some (Error ''TypeError''), s)
      | Some w \<Rightarrow>
         (None,
          s\<lparr>processedMsgIds :=
               (case chat w of
                  None \<Rightarrow> {}
                | Some ch \<Rightarrow> (case msgs ch of None \<Rightarrow> {} | Some ms \<Rightarrow> historyIds ms))\<rparr>))"

definition subscribeToHyperfyEvents :: "connect_env \<Rightarrow> service \<Rightarrow> error option \<times> service" where
  "subscribeToHyperfyEvents env s =
     (case serviceWorld s of
        None \<Rightarrow> (None, s)
      | Some w \<Rightarrow>
         if \<not> onFn w then (None, s)
         else
          (case faults env DetachDisconnect of
             Some e \<Rightarrow> (Some e, s)
           | None \<Rightarrow>
              (case chat w of
                 None \<Rightarrow> (None, s)
               | Some ch \<Rightarrow>
                  if subscribeFn ch then mayThrow env Subscribe startChatSubscription s
                  else (None, s))))"

text \<open>The statements of the \<^verbatim>\<open>try\<close> block after the world has been created.\<close>

definition setupSteps :: "connect_env \<Rightarrow> (service \<Rightarrow> error option \<times> service) list" where
  "setupSteps env =
     [mayThrow env BuildLiveKit (\<lambda>s. s),
      mayThrow env BuildActions (\<lambda>s. s),
      mayThrow env BuildControls
        (\<lambda>s. s\<lparr>serviceControls := Some (newControls (scene (createdWorld env)))\<rparr>),
      mayThrow env BuildLoader (\<lambda>s. s),
      stepInit,
      stepEntities env,
      stepProcessedIds,
      subscribeToHyperfyEvents env,
      (\<lambda>s. (None, s\<lparr>isConnectedState := True\<rparr>)),
      mayThrow env BuildManagers (\<lambda>s. s\<lparr>managersBuilt := True\<rparr>),
      (\<lambda>s. (None, startSimulation s)),
      (\<lambda>s. (None, startEntityUpdates s)),
      (\<lambda>s. (None, startAppearancePolling s)),
      (\<lambda>s. (None, s\<lparr>connectionTime := Some (dateNow env)\<rparr>))]"

definition connectBody :: "connect_env \<Rightarrow> service \<Rightarrow> error option \<times> service" where
  "connectBody env =
     runSteps
       (mayThrow env CreateWorld (\<lambda>s. s\<lparr>serviceWorld := Some (createdWorld env)\<rparr>)
        # setupSteps env)"

text \<open>The assignments of \<^verbatim>\<open>connect\<close> before its \<^verbatim>\<open>try\<close> block.\<close>

definition preConnect :: "config \<Rightarrow> service \<Rightarrow> service" where
  "preConnect cfg s =
     s\<lparr>wsUrl := Some (cfgWsUrl cfg), currentWorldId := Some (cfgWorldId cfg),
       appearanceSet := False, nameSet := False, isPhysicsSetup := False\<rparr>"

text \<open>The \<^verbatim>\<open>disconnect()\<close> that \<^verbatim>\<open>connect\<close> awaits first when the service is connected.\<close>

definition connectEntry :: "service \<Rightarrow> error option \<times> service" where
  "connectEntry s = (if isConnectedState s then disconnect s else (None, s))"

text \<open>
  \<^verbatim>\<open>connect(config)\<close>: the result is \<open>Some e\<close> when the call rejects with \<open>e\<close>. In the
  \<^verbatim>\<open>catch\<close> block, a rejection of \<^verbatim>\<open>handleDisconnect()\<close> replaces the caught error.
\<close>

definition connect :: "connect_env \<Rightarrow> config \<Rightarrow> service \<Rightarrow> error option \<times> service" where
  "connect env cfg s =
     (case connectEntry s of
        (Some e, s0) \<Rightarrow> (Some e, s0)
      | (None, s0) \<Rightarrow>
         (case connectBody env (preConnect cfg s0) of
            (None, s2) \<Rightarrow> (None, s2)
          | (Some e, s2) \<Rightarrow>
             (case handleDisconnect s2 of
                (Some e', s3) \<Rightarrow> (Some e', s3)
              | (None, s3) \<Rightarrow> (Some e, s3))))"

section \<open>Vocabulary of the properties\<close>

text \<open>The key writes with which \<^verbatim>\<open>stopNavigation\<close> releases the movement keys.\<close>

definition movementKeyReleases :: "effect list" where
  "movementKeyReleases =
     [KeySet ''keyW'' False, KeySet ''keyA'' False, KeySet ''keyS'' False,
      KeySet ''keyD'' False, KeySet ''shiftLeft'' False]"

definition keyDown :: "controls \<Rightarrow> string \<Rightarrow> bool" where
  "keyDown c k = down (buttonOf (slots c k))"

text \<open>How many of the messages in a list carry the id \<open>i\<close>.\<close>

definition countId :: "string \<Rightarrow> chat_msg list \<Rightarrow> nat" where
  "countId i ms = length (filter (\<lambda>m. msgId m = Some i) ms)"



definition docTick :: tick_result where
  "docTick = \<lparr>thrown = Some DocumentNotDefined, disconnectEvent = False\<rparr>"

subsection \<open>Concrete inputs\<close>

text \<open>
  A player at the origin whose quaternion \<open>(0, 1, 0, 0)\<close> is the half turn about the
  vertical axis: its forward vector is \<open>+Z\<close>.
\<close>

definition originFacingPlusZ :: world where
  "originFacingPlusZ =
     \<lparr>player = Some \<lparr>base = Some
         \<lparr>position = Some \<lparr>isVector3 = True, px = Some 0, py = Some 0, pz = Some 0\<rparr>,
          quaternion = Some \<lparr>isQuaternion = True, rx = Some 0, ry = Some 1,
                             rz = Some 0, rw = Some 0\<rparr>\<rparr>,
        jumpFn = None, setHeightFn = None\<rparr>,
      tweenFn = None\<rparr>"

definition noPlayer :: world where
  "noPlayer = \<lparr>player = None, tweenFn = None\<rparr>"

definition liveWorld :: client_world where
  "liveWorld =
     \<lparr>scene = originFacingPlusZ, initFn = Some None, entitiesOnFn = True,
      entitiesOffFn = Some None, items = [],
      chat = Some \<lparr>msgs = Some [], subscribeFn = True, subscribers = 0\<rparr>,
      onFn = True, networkDisconnectFn = Some None, destroyFn = Some None, tickFn = True\<rparr>"

definition liveService :: service where
  "liveService =
     newService\<lparr>serviceWorld := Some liveWorld, isConnectedState := True,
                connectionTime := Some 1000, tickIntervalId := Some (Timer 0 0),
                nextTimer := 1\<rparr>"

definition msgX :: chat_msg where
  "msgX = \<lparr>msgId = Some ''X'', createdAt = Some 2000, body = ''hello''\<rparr>"

definition msgEmptyId :: chat_msg where
  "msgEmptyId = \<lparr>msgId = Some [], createdAt = Some 2000, body = ''hello''\<rparr>"

definition msgOld :: chat_msg where
  "msgOld = \<lparr>msgId = Some ''old'', createdAt = Some 500, body = ''earlier''\<rparr>"


definition someConfig :: config where
  "someConfig = \<lparr>cfgWsUrl = ''wss://chill.hyperfy.xyz/ws'', cfgAuthToken = None,
                  cfgWorldId = ''world-1''\<rparr>"

definition boomTick :: tick_result where
  "boomTick = \<lparr>thrown = Some (OtherError ''boom''), disconnectEvent = False\<rparr>"

text \<open>A player without a body whose native jump throws.\<close>

definition throwingJump :: world where
  "throwingJump =
     \<lparr>player = Some \<lparr>base = None, jumpFn = Some True, setHeightFn = None\<rparr>, tweenFn = None\<rparr>"

text \<open>A random walk on the player above, its first leg and the leg that follows it.\<close>

definition walkStarted :: controls where
  "walkStarted = startRandomWalk 5000 7 (newControls originFacingPlusZ)"

definition walkFirstLeg :: controls where
  "walkFirstLeg = randomWalkTick 0 (1/2) walkStarted"

definition walkSecondLeg :: controls where
  "walkSecondLeg = randomWalkTick (1/4) (1/2) walkFirstLeg"


text \<open>Five overlapping batches, each re-delivering the message \<open>msgX\<close>.\<close>

definition fiveBatches :: "chat_msg list list" where
  "fiveBatches = [[msgOld, msgX], [msgOld, msgX], [msgX], [msgX, msgX], [msgOld, msgX]]"



definition offThrows :: connect_env where
  "offThrows =
     \<lparr>faults = (\<lambda>st. None),
      createdWorld = liveWorld\<lparr>initFn := Some (Some (Error ''init failed'')),
                               entitiesOffFn := Some (Some (Error ''off failed''))\<rparr>,
      syncedBeforeFault = 0, dateNow = 1000\<rparr>"

text \<open>
  A player at the origin looking straight up: the unit quaternion \<open>(1/2, 1/2, -1/2, 1/2)\<close>
  turns the forward axis \<open>-Z\<close> into \<open>+Y\<close>.
\<close>

definition originLookingUp :: world where
  "originLookingUp =
     \<lparr>player = Some \<lparr>base = Some
         \<lparr>position = Some \<lparr>isVector3 = True, px = Some 0, py = Some 0, pz = Some 0\<rparr>,
          quaternion = Some \<lparr>isQuaternion = True, rx = Some (1/2), ry = Some (1/2),
                             rz = Some (- (1/2)), rw = Some (1/2)\<rparr>\<rparr>,
        jumpFn = None, setHeightFn = None\<rparr>,
      tweenFn = None\<rparr>"

section \<open>Properties\<close>

subsection \<open>Facts about the controls\<close>

lemma setKey_fields [simp]:
  "world (setKey k d c) = world c"
  "navigationTarget (setKey k d c) = navigationTarget c"
  "isNavigating (setKey k d c) = isNavigating c"
  "navigationIntervalId (setKey k d c) = navigationIntervalId c"
  "currentNavKeys (setKey k d c) = currentNavKeys c"
  "stopReason (setKey k d c) = stopReason c"
  "isWalkingRandomly (setKey k d c) = isWalkingRandomly c"
  "randomWalkIntervalId (setKey k d c) = randomWalkIntervalId c"
  "isJumping (setKey k d c) = isJumping c"
  "isCrouching (setKey k d c) = isCrouching c"
  "lastJumpTime (setKey k d c) = lastJumpTime c"
  "jumpCooldown (setKey k d c) = jumpCooldown c"
  "timeouts (setKey k d c) = timeouts c"
  "nextTimerId (setKey k d c) = nextTimerId c"
  "effects (setKey k d c) = effects c @ [KeySet k d]"
  by (simp_all add: setKey_def Let_def)

lemma setKey_down:
  "keyDown (setKey k d c) k' = (if k' = k then d else keyDown c k')"
  by (simp add: setKey_def Let_def buttonOf_def keyDown_def)

lemma keyDown_update:
  "keyDown (stopReason_update f1 c) k = keyDown c k"
  "keyDown (navigationIntervalId_update f2 c) k = keyDown c k"
  "keyDown (isNavigating_update f3 c) k = keyDown c k"
  "keyDown (navigationTarget_update f4 c) k = keyDown c k"
  "keyDown (currentNavKeys_update f5 c) k = keyDown c k"
  "keyDown (randomWalkIntervalId_update f6 c) k = keyDown c k"
  "keyDown (isWalkingRandomly_update f7 c) k = keyDown c k"
  "keyDown (nextTimerId_update f8 c) k = keyDown c k"
  by (simp_all add: keyDown_def)

lemma stopRandomWalk_nav:
  "stopRandomWalk ''navigation stopped'' c =
     (if \<not> isWalkingRandomly c \<and> randomWalkIntervalId c = None then c
      else c\<lparr>randomWalkIntervalId := None, isWalkingRandomly := False\<rparr>)"
  by (simp add: stopRandomWalk.simps)

lemma stopNavigation_stopped:
  "\<not> isNavigating c \<Longrightarrow> navigationIntervalId c = None \<Longrightarrow> stopNavigation r c = c"
  by (simp add: stopNavigation.simps)

lemma stopNavigation_active:
  assumes "isNavigating c \<or> navigationIntervalId c \<noteq> None"
  shows "isNavigating (stopNavigation r c) = False"
    "navigationIntervalId (stopNavigation r c) = None"
    "navigationTarget (stopNavigation r c) = None"
    "currentNavKeys (stopNavigation r c) = noKeys"
    "stopReason (stopNavigation r c) = Some r"
    "effects (stopNavigation r c) = effects c @ movementKeyReleases"
    "world (stopNavigation r c) = world c"
    "isJumping (stopNavigation r c) = isJumping c"
    "isCrouching (stopNavigation r c) = isCrouching c"
    "nextTimerId (stopNavigation r c) = nextTimerId c"
    "timeouts (stopNavigation r c) = timeouts c"
    "isWalkingRandomly (stopNavigation r c) = (r = ''random walk tick'' \<and> isWalkingRandomly c)"
    "randomWalkIntervalId (stopNavigation r c) = (if r = ''random walk tick'' then randomWalkIntervalId c else None)"
  using assms
  by (auto simp add: stopNavigation.simps[of r c] stopRandomWalk_nav Let_def movementKeyReleases_def)

lemma stopNavigation_keys_down:
  assumes "isNavigating c \<or> navigationIntervalId c \<noteq> None"
  shows "keyDown (stopNavigation r c) k =
     (if k \<in> {''keyW'', ''keyA'', ''keyS'', ''keyD'', ''shiftLeft''} then False
      else keyDown c k)"
  using assms
  by (simp add: stopNavigation.simps[of r c] stopRandomWalk_nav Let_def setKey_down keyDown_update)

lemma stopNavigation_flags:
  "isNavigating (stopNavigation r c) = False"
  "navigationIntervalId (stopNavigation r c) = None"
  by (simp_all add: stopNavigation.simps[of r c] stopRandomWalk_nav Let_def)

lemma distanceXZ_planar:
  "distanceXZOf p t = sqrt ((vx p - vx t)\<^sup>2 + (vz p - vz t)\<^sup>2)"
  by (simp add: distanceXZOf_def distanceTo_def length3_def lengthSq_def sub3_def setY_def
      power2_eq_square)

lemma applyKeys_snapshot:
  "currentNavKeys (applyKeys d c) = d\<lparr>backward := False\<rparr>"
  by (cases d; cases "currentNavKeys c") (auto simp add: applyKeys_def Let_def)

lemma desiredKeys_no_backward: "(desiredKeys a)\<lparr>backward := False\<rparr> = desiredKeys a"
  by (simp add: desiredKeys_def noKeys_def Let_def)

lemma direction_unit:
  assumes "1 < sqrt ((vx p - vx t)\<^sup>2 + (vz p - vz t)\<^sup>2)"
  shows "lengthSq (directionWorldOf t p) = 1"
proof -
  define dx where "dx = vx t - vx p"
  define dz where "dz = vz t - vz p"
  define l where "l = sqrt (dx * dx + dz * dz)"
  have S_eq: "dx * dx + dz * dz = (vx p - vx t)\<^sup>2 + (vz p - vz t)\<^sup>2"
    by (simp add: dx_def dz_def power2_eq_square algebra_simps)
  have pos: "0 < l" using assms S_eq by (simp add: l_def)
  have S_nonneg: "0 \<le> dx * dx + dz * dz" by simp
  have sq: "l * l = dx * dx + dz * dz"
    unfolding l_def using S_nonneg by simp
  have len: "length3 (setY 0 (sub3 t p)) = l"
    by (simp add: length3_def lengthSq_def setY_def sub3_def l_def dx_def dz_def)
  have "lengthSq (directionWorldOf t p) = dx / l * (dx / l) + dz / l * (dz / l)"
    using pos
    by (simp add: directionWorldOf_def normalize3_def len Let_def)
       (simp add: lengthSq_def setY_def sub3_def dx_def dz_def)
  also have "\<dots> = (dx * dx + dz * dz) / (l * l)"
    by (simp add: add_divide_distrib)
  also have "\<dots> = (l * l) / (l * l)" by (simp only: sq)
  also have "\<dots> = 1" using pos by simp
  finally show ?thesis .
qed

lemma sqrt25: "sqrt 25 = (5::real)"
  by (rule real_sqrt_unique) simp_all

lemma applyKeys_keyDown:
  "keyDown (applyKeys d c) ''keyW'' =
     (if forward d \<noteq> forward (currentNavKeys c) then forward d else keyDown c ''keyW'')"
  "keyDown (applyKeys d c) ''keyA'' =
     (if left d \<noteq> left (currentNavKeys c) then left d else keyDown c ''keyA'')"
  "keyDown (applyKeys d c) ''keyD'' =
     (if right d \<noteq> right (currentNavKeys c) then right d else keyDown c ''keyD'')"
  "keyDown (applyKeys d c) ''shiftLeft'' = False"
  by (simp_all add: applyKeys_def Let_def setKey_down keyDown_update)

lemma navigateTo_fresh:
  "navigateTo x z (newControls originFacingPlusZ) =
     (newControls originFacingPlusZ)
       \<lparr>navigationTarget := Some \<lparr>vx = x, vy = 0, vz = z\<rparr>, isNavigating := True,
        navigationIntervalId := Some 0, nextTimerId := Suc 0\<rparr>"
  by (simp add: navigateTo_def newControls_def originFacingPlusZ_def positionXZNumeric_def
      quaternionNumeric_def stopNavigation_stopped Let_def)

lemma facing_pose:
  "tickPose \<lparr>position = Some \<lparr>isVector3 = True, px = Some 0, py = Some 0, pz = Some 0\<rparr>,
          quaternion = Some \<lparr>isQuaternion = True, rx = Some 0, ry = Some 1,
                             rz = Some 0, rw = Some 0\<rparr>\<rparr>
   = Inr (\<lparr>vx = 0, vy = 0, vz = 0\<rparr>, \<lparr>qx = 0, qy = 1, qz = 0, qw = 0\<rparr>)"
  by (simp add: tickPose_def numericPosition_def numericQuaternion_def qnormalize_def qlength_def)

lemma facing_forward:
  "forwardWorldOf \<lparr>qx = 0, qy = 1, qz = 0, qw = 0\<rparr> = \<lparr>vx = 0, vy = 0, vz = 1\<rparr>"
  by (simp add: forwardWorldOf_def applyQuaternion_def setY_def normalize3_def length3_def
      lengthSq_def Let_def)

lemma facing_direction:
  "directionWorldOf \<lparr>vx = 0, vy = 0, vz = 5\<rparr> \<lparr>vx = 0, vy = 0, vz = 0\<rparr> = \<lparr>vx = 0, vy = 0, vz = 1\<rparr>"
  by (simp add: directionWorldOf_def sub3_def setY_def normalize3_def length3_def
      lengthSq_def Let_def sqrt25)

lemma facing_angle:
  "signedAngleOf \<lparr>vx = 0, vy = 0, vz = 1\<rparr> \<lparr>vx = 0, vy = 0, vz = 1\<rparr> = 0"
  by (simp add: signedAngleOf_def angleTo_def crossVectors_def lengthSq_def dot3_def clamp_def
      Let_def)

subsection \<open>Button states\<close>

text \<open>
  C10. \<^verbatim>\<open>setKey(name, isDown)\<close> returns for every key name: afterwards the named control
  is a button state whose \<open>down\<close> is \<open>isDown\<close>. When the control was missing or was not a
  button state, the edge logic runs on a fresh button state, so \<^verbatim>\<open>setKey(name, true)\<close>
  leaves \<open>down\<close> and \<open>pressed\<close> set and \<open>released\<close> clear. When \<open>down\<close> already had the
  value \<open>isDown\<close> the button state is unchanged (no new edge flag), and no other control
  is touched.
\<close>

theorem setKey_total:
  "(\<exists>b. slots (setKey name isDown c) name = Some (Button b) \<and> down b = isDown)
   \<and> (slots c name = None \<or> slots c name = Some NonButton \<longrightarrow>
        slots (setKey name isDown c) name =
          Some (Button \<lparr>down = isDown, pressed = isDown, released = False\<rparr>))
   \<and> (slots c name = None \<or> slots c name = Some NonButton \<longrightarrow>
        slots (setKey name True c) name =
          Some (Button \<lparr>down = True, pressed = True, released = False\<rparr>))
   \<and> (\<forall>b. slots c name = Some (Button b) \<and> down b = isDown \<longrightarrow>
        slots (setKey name isDown c) name = Some (Button b))
   \<and> (\<forall>k. k \<noteq> name \<longrightarrow> slots (setKey name isDown c) k = slots c k)"
  by (auto simp: setKey_def buttonOf_def createButtonState_def Let_def)

theorem setKey_total_witness:
  "slots (newControls noPlayer) ''key1'' = None
   \<and> slots (setKey ''key1'' True (newControls noPlayer)) ''key1''
       = Some (Button \<lparr>down = True, pressed = True, released = False\<rparr>)
   \<and> slots (newControls noPlayer) ''pointer'' = Some NonButton
   \<and> slots (setKey ''pointer'' False (newControls noPlayer)) ''pointer''
       = Some (Button \<lparr>down = False, pressed = False, released = False\<rparr>)
   \<and> slots (newControls noPlayer) ''keyW'' = Some (Button createButtonState)
   \<and> down createButtonState = False
   \<and> slots (setKey ''keyW'' False (newControls noPlayer)) ''keyW'' = Some (Button createButtonState)
   \<and> ''keyA'' \<noteq> ''keyW''
   \<and> slots (setKey ''keyW'' True (newControls noPlayer)) ''keyA''
       = slots (newControls noPlayer) ''keyA''"
  using setKey_total[of "''key1''" True "newControls noPlayer"]
    setKey_total[of "''pointer''" False "newControls noPlayer"]
    setKey_total[of "''keyW''" False "newControls noPlayer"]
    setKey_total[of "''keyW''" True "newControls noPlayer"]
  by (simp add: newControls_def initialSlots_def commonKeys_def createButtonState_def)

subsection \<open>Navigation\<close>

text \<open>
  C6. \<^verbatim>\<open>stopNavigation\<close> is idempotent: a second call, with any reason, returns the
  state of the first call unchanged (every field, so in particular the navigation flag,
  the target, the interval handle, the button states and the random-walk flag), and a
  call while navigation is stopped (no flag, no interval handle) changes nothing.
\<close>

theorem stopNavigation_idempotent:
  "stopNavigation r2 (stopNavigation r1 c) = stopNavigation r1 c
   \<and> (\<not> isNavigating c \<and> navigationIntervalId c = None \<longrightarrow> stopNavigation r1 c = c)"
  by (simp add: stopNavigation_stopped stopNavigation_flags)

theorem stopNavigation_idempotent_witness:
  "\<not> isNavigating (newControls noPlayer)
   \<and> navigationIntervalId (newControls noPlayer) = None
   \<and> stopNavigation ''commanded'' (newControls noPlayer) = newControls noPlayer
   \<and> isNavigating (navigateTo 3 4 (newControls originFacingPlusZ))
   \<and> stopNavigation ''commanded''
        (stopNavigation ''commanded'' (navigateTo 3 4 (newControls originFacingPlusZ)))
       = stopNavigation ''commanded'' (navigateTo 3 4 (newControls originFacingPlusZ))"
  using stopNavigation_idempotent[of "''commanded''" "''commanded''" "newControls noPlayer"]
    stopNavigation_idempotent[of "''commanded''" "''commanded''"
      "navigateTo 3 4 (newControls originFacingPlusZ)"]
  by (simp add: navigateTo_fresh) (simp add: newControls_def)

text \<open>
  C5. A navigation tick with a readable pose whose planar distance to the active target
  (the height \<open>vy\<close> does not occur) is at most \<open>NAVIGATION_STOP_DISTANCE = 1\<close> is exactly
  \<^verbatim>\<open>stopNavigation("reached target")\<close>: navigation is stopped, target and interval handle
  are cleared, and the only key writes are one release each of \<^verbatim>\<open>keyW\<close>, \<^verbatim>\<open>keyA\<close>,
  \<^verbatim>\<open>keyS\<close>, \<^verbatim>\<open>keyD\<close> and \<^verbatim>\<open>shiftLeft\<close>; a further tick or stop writes nothing more.
\<close>

theorem navigationTick_reached_target:
  assumes nav: "isNavigating c"
    and tgt: "navigationTarget c = Some target"
    and pl: "player (world c) = Some p"
    and bs: "base p = Some b"
    and pose: "tickPose b = Inr (playerPosition, playerQuaternion)"
    and near: "sqrt ((vx playerPosition - vx target)\<^sup>2 + (vz playerPosition - vz target)\<^sup>2)
                 \<le> NAVIGATION_STOP_DISTANCE"
  shows "navigationTick c = stopNavigation ''reached target'' c
    \<and> \<not> getIsNavigating (navigationTick c)
    \<and> navigationTarget (navigationTick c) = None
    \<and> navigationIntervalId (navigationTick c) = None
    \<and> stopReason (navigationTick c) = Some ''reached target''
    \<and> effects (navigationTick c) = effects c @ movementKeyReleases
    \<and> \<not> keyDown (navigationTick c) ''keyW'' \<and> \<not> keyDown (navigationTick c) ''keyA''
    \<and> \<not> keyDown (navigationTick c) ''keyS'' \<and> \<not> keyDown (navigationTick c) ''keyD''
    \<and> \<not> keyDown (navigationTick c) ''shiftLeft''
    \<and> currentNavKeys (navigationTick c) = noKeys
    \<and> navigationTick (navigationTick c) = navigationTick c
    \<and> stopNavigation r (navigationTick c) = navigationTick c"
proof -
  have eq: "navigationTick c = stopNavigation ''reached target'' c"
    using assms by (simp add: navigationTick_def distanceXZ_planar)
  have act: "isNavigating c \<or> navigationIntervalId c \<noteq> None"
    using nav by simp
  have again: "navigationTick (stopNavigation ''reached target'' c) = stopNavigation ''reached target'' c"
    by (simp add: navigationTick_def stopNavigation_active[OF act])
  show ?thesis
    unfolding eq getIsNavigating_def
    by (simp add: stopNavigation_active[OF act] stopNavigation_keys_down[OF act] again
        stopNavigation_stopped)
qed

theorem navigationTick_reached_target_witness:
  "isNavigating (navigateTo 0 (1/2) (newControls originFacingPlusZ))
   \<and> navigationTarget (navigateTo 0 (1/2) (newControls originFacingPlusZ))
       = Some \<lparr>vx = 0, vy = 0, vz = 1/2\<rparr>
   \<and> sqrt ((0 - 0)\<^sup>2 + (0 - 1/2)\<^sup>2) \<le> NAVIGATION_STOP_DISTANCE
   \<and> \<not> getIsNavigating (navigationTick (navigateTo 0 (1/2) (newControls originFacingPlusZ)))
   \<and> navigationIntervalId (navigationTick (navigateTo 0 (1/2) (newControls originFacingPlusZ)))
       = None
   \<and> effects (navigationTick (navigateTo 0 (1/2) (newControls originFacingPlusZ)))
       = movementKeyReleases
   \<and> effects (navigationTick (navigationTick (navigateTo 0 (1/2) (newControls originFacingPlusZ))))
       = movementKeyReleases"
proof -
  let ?c = "navigateTo 0 (1/2) (newControls originFacingPlusZ)"
  let ?b = "\<lparr>position = Some \<lparr>isVector3 = True, px = Some 0, py = Some 0, pz = Some 0\<rparr>,
          quaternion = Some \<lparr>isQuaternion = True, rx = Some 0, ry = Some 1,
                             rz = Some 0, rw = Some 0\<rparr>\<rparr>"
  let ?p = "\<lparr>base = Some ?b, jumpFn = None, setHeightFn = None\<rparr>"
  have h1: "isNavigating ?c" by (simp add: navigateTo_fresh)
  have h2: "navigationTarget ?c = Some \<lparr>vx = 0, vy = 0, vz = 1/2\<rparr>"
    by (simp add: navigateTo_fresh)
  have h3: "player (world ?c) = Some ?p"
    by (simp add: navigateTo_fresh) (simp add: newControls_def originFacingPlusZ_def)
  have h4: "base ?p = Some ?b" by simp
  have half: "sqrt ((1/2)\<^sup>2) = (1/2 :: real)"
    by (rule real_sqrt_unique) simp_all
  have h6: "sqrt ((vx \<lparr>vx = 0, vy = 0, vz = 0\<rparr> - vx \<lparr>vx = 0, vy = 0, vz = 1/2\<rparr>)\<^sup>2
            + (vz \<lparr>vx = 0, vy = 0, vz = 0\<rparr> - vz \<lparr>vx = 0, vy = 0, vz = 1/2\<rparr>)\<^sup>2)
          \<le> NAVIGATION_STOP_DISTANCE"
    using half by (simp add: NAVIGATION_STOP_DISTANCE_def)
  have e0: "effects ?c = []"
    by (simp add: navigateTo_fresh) (simp add: newControls_def)
  note main = navigationTick_reached_target[OF h1 h2 h3 h4 facing_pose h6]
  have again: "navigationTick (navigationTick ?c) = navigationTick ?c"
    using main by blast
  have eff: "effects (navigationTick ?c) = effects ?c @ movementKeyReleases"
    using main by blast
  have stopped: "\<not> getIsNavigating (navigationTick ?c)"
    "navigationIntervalId (navigationTick ?c) = None"
    using main by blast+
  show ?thesis
    using h1 h2 h6 stopped eff by (simp add: again e0)
qed

lemma holdPosition_fields:
  "currentNavKeys (holdPosition c) = noKeys"
  "\<not> keyDown (holdPosition c) ''keyW''" "\<not> keyDown (holdPosition c) ''keyA''"
  "\<not> keyDown (holdPosition c) ''keyS''" "\<not> keyDown (holdPosition c) ''keyD''"
  by (simp_all add: holdPosition_def setKey_down keyDown_update)

lemma navigateTo_fresh_up:
  "navigateTo x z (newControls originLookingUp) =
     (newControls originLookingUp)
       \<lparr>navigationTarget := Some \<lparr>vx = x, vy = 0, vz = z\<rparr>, isNavigating := True,
        navigationIntervalId := Some 0, nextTimerId := Suc 0\<rparr>"
  by (simp add: navigateTo_def newControls_def originLookingUp_def positionXZNumeric_def
      quaternionNumeric_def stopNavigation_stopped Let_def)

lemma up_pose:
  "tickPose \<lparr>position = Some \<lparr>isVector3 = True, px = Some 0, py = Some 0, pz = Some 0\<rparr>,
          quaternion = Some \<lparr>isQuaternion = True, rx = Some (1/2), ry = Some (1/2),
                             rz = Some (- (1/2)), rw = Some (1/2)\<rparr>\<rparr>
   = Inr (\<lparr>vx = 0, vy = 0, vz = 0\<rparr>, \<lparr>qx = 1/2, qy = 1/2, qz = - (1/2), qw = 1/2\<rparr>)"
  by (simp add: tickPose_def numericPosition_def numericQuaternion_def qnormalize_def qlength_def)

lemma up_forward:
  "forwardWorldOf \<lparr>qx = 1/2, qy = 1/2, qz = - (1/2), qw = 1/2\<rparr> = \<lparr>vx = 0, vy = 0, vz = 0\<rparr>"
  by (simp add: forwardWorldOf_def applyQuaternion_def setY_def normalize3_def length3_def
      lengthSq_def Let_def)

lemma up_raw_forward:
  "applyQuaternion \<lparr>qx = 1/2, qy = 1/2, qz = - (1/2), qw = 1/2\<rparr> \<lparr>vx = 0, vy = 0, vz = - 1\<rparr>
     = \<lparr>vx = 0, vy = 1, vz = 0\<rparr>"
  by (simp add: applyQuaternion_def Let_def)

lemma up_angle:
  "signedAngleOf \<lparr>vx = 0, vy = 0, vz = 0\<rparr> \<lparr>vx = 0, vy = 0, vz = 1\<rparr> = pi / 2"
  by (simp add: signedAngleOf_def angleTo_def crossVectors_def lengthSq_def Let_def)

lemma left_direction:
  "directionWorldOf \<lparr>vx = - 5, vy = 0, vz = 0\<rparr> \<lparr>vx = 0, vy = 0, vz = 0\<rparr>
     = \<lparr>vx = - 1, vy = 0, vz = 0\<rparr>"
  by (simp add: directionWorldOf_def sub3_def setY_def normalize3_def length3_def
      lengthSq_def Let_def sqrt25)

lemma left_angle:
  "signedAngleOf \<lparr>vx = 0, vy = 0, vz = 1\<rparr> \<lparr>vx = - 1, vy = 0, vz = 0\<rparr> = - (pi / 2)"
  by (simp add: signedAngleOf_def angleTo_def crossVectors_def lengthSq_def dot3_def clamp_def
      Let_def)

text \<open>
  C4, as specified, has every tick with a valid finite pose and a planar distance above
  the stop distance either turn in place or move forward. For the embodiment at the
  origin that looks straight up (unit quaternion, forward vector \<open>+Y\<close>) and the target
  \<open>(0, 0, 5)\<close>, the horizontal forward vector is zero, the heading angle computed from it
  is \<open>\<pi>/2\<close>, above 45 degrees, and the tick sets no key at all.
\<close>

theorem navigationTick_holds_looking_up:
  "isNavigating (navigateTo 0 5 (newControls originLookingUp))
   \<and> navigationTarget (navigateTo 0 5 (newControls originLookingUp))
       = Some \<lparr>vx = 0, vy = 0, vz = 5\<rparr>
   \<and> NAVIGATION_STOP_DISTANCE < sqrt ((0 - 0)\<^sup>2 + (0 - 5)\<^sup>2)
   \<and> qnormalize \<lparr>qx = 1/2, qy = 1/2, qz = - (1/2), qw = 1/2\<rparr>
       = \<lparr>qx = 1/2, qy = 1/2, qz = - (1/2), qw = 1/2\<rparr>
   \<and> applyQuaternion \<lparr>qx = 1/2, qy = 1/2, qz = - (1/2), qw = 1/2\<rparr> \<lparr>vx = 0, vy = 0, vz = - 1\<rparr>
       = \<lparr>vx = 0, vy = 1, vz = 0\<rparr>
   \<and> signedAngleOf (forwardWorldOf \<lparr>qx = 1/2, qy = 1/2, qz = - (1/2), qw = 1/2\<rparr>)
         (directionWorldOf \<lparr>vx = 0, vy = 0, vz = 5\<rparr> \<lparr>vx = 0, vy = 0, vz = 0\<rparr>) = pi / 2
   \<and> pi / 4 < \<bar>pi / 2\<bar>
   \<and> currentNavKeys (navigationTick (navigateTo 0 5 (newControls originLookingUp))) = noKeys
   \<and> \<not> keyDown (navigationTick (navigateTo 0 5 (newControls originLookingUp))) ''keyW''
   \<and> \<not> keyDown (navigationTick (navigateTo 0 5 (newControls originLookingUp))) ''keyA''
   \<and> \<not> keyDown (navigationTick (navigateTo 0 5 (newControls originLookingUp))) ''keyD''"
proof -
  let ?c = "navigateTo 0 5 (newControls originLookingUp)"
  have h1: "isNavigating ?c" by (simp add: navigateTo_fresh_up)
  have h2: "navigationTarget ?c = Some \<lparr>vx = 0, vy = 0, vz = 5\<rparr>"
    by (simp add: navigateTo_fresh_up)
  have far: "NAVIGATION_STOP_DISTANCE < sqrt ((0 - 0)\<^sup>2 + (0 - 5)\<^sup>2)"
    by (simp add: NAVIGATION_STOP_DISTANCE_def sqrt25)
  have unit: "qnormalize \<lparr>qx = 1/2, qy = 1/2, qz = - (1/2), qw = 1/2\<rparr>
       = \<lparr>qx = 1/2, qy = 1/2, qz = - (1/2), qw = 1/2\<rparr>"
    by (simp add: qnormalize_def qlength_def)
  have ang: "signedAngleOf (forwardWorldOf \<lparr>qx = 1/2, qy = 1/2, qz = - (1/2), qw = 1/2\<rparr>)
         (directionWorldOf \<lparr>vx = 0, vy = 0, vz = 5\<rparr> \<lparr>vx = 0, vy = 0, vz = 0\<rparr>) = pi / 2"
    by (simp add: up_forward facing_direction up_angle)
  have big: "pi / 4 < \<bar>pi / 2\<bar>" using pi_gt_zero by simp
  have tick: "navigationTick ?c = holdPosition ?c"
    by (simp add: navigationTick_def navigateTo_fresh_up)
       (simp add: newControls_def originLookingUp_def up_pose distanceXZ_planar
          NAVIGATION_STOP_DISTANCE_def sqrt25 up_forward lengthSq_def Let_def)
  show ?thesis
    using h1 h2 far unit ang big
    by (simp add: tick holdPosition_fields up_raw_forward)
qed

text \<open>
  C4, amended. On a navigation tick with a readable pose and planar distance to the target
  above the stop distance: when the horizontal projection of the forward vector is not
  degenerate, the tick applies the desired keys of the signed heading angle \<open>a\<close>, which
  for \<open>\<bar>a\<bar> > \<pi>/4\<close> are turn-only (left for negative, right for positive \<open>a\<close>, no
  forward) and otherwise have forward set, together with left or right exactly when
  \<open>\<bar>a\<bar> > \<pi>/18\<close>; when it is degenerate, the tick holds position: it releases \<^verbatim>\<open>keyW\<close>,
  \<^verbatim>\<open>keyA\<close>, \<^verbatim>\<open>keyD\<close>, \<^verbatim>\<open>keyS\<close> and desires no key. The instances below are the embodiment
  at the origin facing \<open>+Z\<close> with target \<open>(0, 0, 5)\<close> (forward only), with target
  \<open>(-5, 0, 0)\<close> (left only), and the embodiment looking straight up (hold).
\<close>

theorem navigationTick_steering:
  assumes nav: "isNavigating c"
    and tgt: "navigationTarget c = Some target"
    and pl: "player (world c) = Some p"
    and bs: "base p = Some b"
    and pose: "tickPose b = Inr (playerPosition, playerQuaternion)"
    and far: "NAVIGATION_STOP_DISTANCE
                < sqrt ((vx playerPosition - vx target)\<^sup>2 + (vz playerPosition - vz target)\<^sup>2)"
    and ang: "a = signedAngleOf (forwardWorldOf playerQuaternion)
                    (directionWorldOf target playerPosition)"
  shows "(\<not> lengthSq (forwardWorldOf playerQuaternion) < 0.001 \<longrightarrow>
            navigationTick c = applyKeys (desiredKeys a) c
            \<and> currentNavKeys (navigationTick c) = desiredKeys a)
    \<and> (pi / 4 < \<bar>a\<bar> \<longrightarrow>
          desiredKeys a = \<lparr>forward = False, backward = False, left = (a < 0), right = (0 < a)\<rparr>)
    \<and> (\<bar>a\<bar> \<le> pi / 4 \<longrightarrow>
          desiredKeys a = \<lparr>forward = True, backward = False,
                           left = (pi / 18 < \<bar>a\<bar> \<and> a < 0),
                           right = (pi / 18 < \<bar>a\<bar> \<and> 0 < a)\<rparr>)
    \<and> (lengthSq (forwardWorldOf playerQuaternion) < 0.001 \<longrightarrow>
            navigationTick c = holdPosition c
            \<and> currentNavKeys (navigationTick c) = noKeys
            \<and> \<not> keyDown (navigationTick c) ''keyW'' \<and> \<not> keyDown (navigationTick c) ''keyA''
            \<and> \<not> keyDown (navigationTick c) ''keyS'' \<and> \<not> keyDown (navigationTick c) ''keyD'')"
proof -
  have far1: "1 < sqrt ((vx playerPosition - vx target)\<^sup>2 + (vz playerPosition - vz target)\<^sup>2)"
    using far by (simp add: NAVIGATION_STOP_DISTANCE_def)
  have dir: "lengthSq (directionWorldOf target playerPosition) = 1"
    by (rule direction_unit[OF far1])
  have tick: "navigationTick c = applyKeys (desiredKeys a) c"
    if "\<not> lengthSq (forwardWorldOf playerQuaternion) < 0.001"
    using nav tgt pl bs pose far that dir ang
    by (simp add: navigationTick_def distanceXZ_planar Let_def)
  have snap: "currentNavKeys (navigationTick c) = desiredKeys a"
    if "\<not> lengthSq (forwardWorldOf playerQuaternion) < 0.001"
    by (simp add: tick[OF that] applyKeys_snapshot desiredKeys_no_backward)
  have hold: "navigationTick c = holdPosition c"
    if "lengthSq (forwardWorldOf playerQuaternion) < 0.001"
    using nav tgt pl bs pose far that
    by (simp add: navigationTick_def distanceXZ_planar Let_def)
  have held: "currentNavKeys (navigationTick c) = noKeys
            \<and> \<not> keyDown (navigationTick c) ''keyW'' \<and> \<not> keyDown (navigationTick c) ''keyA''
            \<and> \<not> keyDown (navigationTick c) ''keyS'' \<and> \<not> keyDown (navigationTick c) ''keyD''"
    if "lengthSq (forwardWorldOf playerQuaternion) < 0.001"
    by (simp add: hold[OF that] holdPosition_fields)
  have turn: "pi / 4 < \<bar>a\<bar> \<Longrightarrow>
      desiredKeys a = \<lparr>forward = False, backward = False, left = (a < 0), right = (0 < a)\<rparr>"
    by (auto simp add: desiredKeys_def turnThreshold_def noKeys_def)
       (use pi_gt_zero in linarith)+
  have go: "\<bar>a\<bar> \<le> pi / 4 \<Longrightarrow>
      desiredKeys a = \<lparr>forward = True, backward = False,
                           left = (pi / 18 < \<bar>a\<bar> \<and> a < 0),
                           right = (pi / 18 < \<bar>a\<bar> \<and> 0 < a)\<rparr>"
    using pi_gt_zero
    by (auto simp add: desiredKeys_def turnThreshold_def forwardThreshold_def noKeys_def Let_def)
  show ?thesis using tick snap hold held turn go by blast
qed


theorem navigationTick_steering_witness:
  "isNavigating (navigateTo 0 5 (newControls originFacingPlusZ))
   \<and> navigationTarget (navigateTo 0 5 (newControls originFacingPlusZ))
       = Some \<lparr>vx = 0, vy = 0, vz = 5\<rparr>
   \<and> forwardWorldOf \<lparr>qx = 0, qy = 1, qz = 0, qw = 0\<rparr> = \<lparr>vx = 0, vy = 0, vz = 1\<rparr>
   \<and> NAVIGATION_STOP_DISTANCE < sqrt ((0 - 0)\<^sup>2 + (0 - 5)\<^sup>2)
   \<and> currentNavKeys (navigationTick (navigateTo 0 5 (newControls originFacingPlusZ)))
       = \<lparr>forward = True, backward = False, left = False, right = False\<rparr>
   \<and> keyDown (navigationTick (navigateTo 0 5 (newControls originFacingPlusZ))) ''keyW''
   \<and> \<not> keyDown (navigationTick (navigateTo 0 5 (newControls originFacingPlusZ))) ''keyA''
   \<and> \<not> keyDown (navigationTick (navigateTo 0 5 (newControls originFacingPlusZ))) ''keyD''
   \<and> NAVIGATION_STOP_DISTANCE < sqrt ((0 - (- 5))\<^sup>2 + (0 - 0)\<^sup>2)
   \<and> currentNavKeys (navigationTick (navigateTo (- 5) 0 (newControls originFacingPlusZ)))
       = \<lparr>forward = False, backward = False, left = True, right = False\<rparr>
   \<and> keyDown (navigationTick (navigateTo (- 5) 0 (newControls originFacingPlusZ))) ''keyA''
   \<and> \<not> keyDown (navigationTick (navigateTo (- 5) 0 (newControls originFacingPlusZ))) ''keyW''
   \<and> lengthSq (forwardWorldOf \<lparr>qx = 1/2, qy = 1/2, qz = - (1/2), qw = 1/2\<rparr>) < 0.001
   \<and> navigationTick (navigateTo 0 5 (newControls originLookingUp))
       = holdPosition (navigateTo 0 5 (newControls originLookingUp))"
proof -
  let ?c = "navigateTo 0 5 (newControls originFacingPlusZ)"
  let ?l = "navigateTo (- 5) 0 (newControls originFacingPlusZ)"
  let ?u = "navigateTo 0 5 (newControls originLookingUp)"
  let ?b = "\<lparr>position = Some \<lparr>isVector3 = True, px = Some 0, py = Some 0, pz = Some 0\<rparr>,
          quaternion = Some \<lparr>isQuaternion = True, rx = Some 0, ry = Some 1,
                             rz = Some 0, rw = Some 0\<rparr>\<rparr>"
  let ?p = "\<lparr>base = Some ?b, jumpFn = None, setHeightFn = None\<rparr>"
  let ?bu = "\<lparr>position = Some \<lparr>isVector3 = True, px = Some 0, py = Some 0, pz = Some 0\<rparr>,
          quaternion = Some \<lparr>isQuaternion = True, rx = Some (1/2), ry = Some (1/2),
                             rz = Some (- (1/2)), rw = Some (1/2)\<rparr>\<rparr>"
  let ?pu = "\<lparr>base = Some ?bu, jumpFn = None, setHeightFn = None\<rparr>"
  have c1: "isNavigating ?c" by (simp add: navigateTo_fresh)
  have c2: "navigationTarget ?c = Some \<lparr>vx = 0, vy = 0, vz = 5\<rparr>" by (simp add: navigateTo_fresh)
  have c3: "player (world ?c) = Some ?p"
    by (simp add: navigateTo_fresh) (simp add: newControls_def originFacingPlusZ_def)
  have l1: "isNavigating ?l" by (simp add: navigateTo_fresh)
  have l2: "navigationTarget ?l = Some \<lparr>vx = - 5, vy = 0, vz = 0\<rparr>"
    by (simp add: navigateTo_fresh)
  have l3: "player (world ?l) = Some ?p"
    by (simp add: navigateTo_fresh) (simp add: newControls_def originFacingPlusZ_def)
  have u1: "isNavigating ?u" by (simp add: navigateTo_fresh_up)
  have u2: "navigationTarget ?u = Some \<lparr>vx = 0, vy = 0, vz = 5\<rparr>"
    by (simp add: navigateTo_fresh_up)
  have u3: "player (world ?u) = Some ?pu"
    by (simp add: navigateTo_fresh_up) (simp add: newControls_def originLookingUp_def)
  have b: "base ?p = Some ?b" by simp
  have bu: "base ?pu = Some ?bu" by simp
  have farC: "NAVIGATION_STOP_DISTANCE
      < sqrt ((vx \<lparr>vx = 0, vy = 0, vz = 0\<rparr> - vx \<lparr>vx = 0, vy = 0, vz = 5\<rparr>)\<^sup>2
            + (vz \<lparr>vx = 0, vy = 0, vz = 0\<rparr> - vz \<lparr>vx = 0, vy = 0, vz = 5\<rparr>)\<^sup>2)"
    by (simp add: NAVIGATION_STOP_DISTANCE_def sqrt25)
  have farL: "NAVIGATION_STOP_DISTANCE
      < sqrt ((vx \<lparr>vx = 0, vy = 0, vz = 0\<rparr> - vx \<lparr>vx = - 5, vy = 0, vz = 0\<rparr>)\<^sup>2
            + (vz \<lparr>vx = 0, vy = 0, vz = 0\<rparr> - vz \<lparr>vx = - 5, vy = 0, vz = 0\<rparr>)\<^sup>2)"
    by (simp add: NAVIGATION_STOP_DISTANCE_def sqrt25)
  have fw: "\<not> lengthSq (forwardWorldOf \<lparr>qx = 0, qy = 1, qz = 0, qw = 0\<rparr>) < 0.001"
    by (simp add: facing_forward lengthSq_def)
  have fu: "lengthSq (forwardWorldOf \<lparr>qx = 1/2, qy = 1/2, qz = - (1/2), qw = 1/2\<rparr>) < 0.001"
    by (simp add: up_forward lengthSq_def)
  have aC: "0 = signedAngleOf (forwardWorldOf \<lparr>qx = 0, qy = 1, qz = 0, qw = 0\<rparr>)
                  (directionWorldOf \<lparr>vx = 0, vy = 0, vz = 5\<rparr> \<lparr>vx = 0, vy = 0, vz = 0\<rparr>)"
    by (simp add: facing_forward facing_direction facing_angle)
  have aL: "- (pi / 2) = signedAngleOf (forwardWorldOf \<lparr>qx = 0, qy = 1, qz = 0, qw = 0\<rparr>)
                  (directionWorldOf \<lparr>vx = - 5, vy = 0, vz = 0\<rparr> \<lparr>vx = 0, vy = 0, vz = 0\<rparr>)"
    by (simp only: facing_forward left_direction left_angle)
  have aU: "pi / 2 = signedAngleOf (forwardWorldOf \<lparr>qx = 1/2, qy = 1/2, qz = - (1/2), qw = 1/2\<rparr>)
                  (directionWorldOf \<lparr>vx = 0, vy = 0, vz = 5\<rparr> \<lparr>vx = 0, vy = 0, vz = 0\<rparr>)"
    by (simp only: up_forward facing_direction up_angle)
  have d0: "desiredKeys 0 = \<lparr>forward = True, backward = False, left = False, right = False\<rparr>"
    by (simp add: desiredKeys_def turnThreshold_def forwardThreshold_def noKeys_def Let_def)
  have dL: "desiredKeys (- (pi / 2))
      = \<lparr>forward = False, backward = False, left = True, right = False\<rparr>"
    using pi_gt_zero by (simp add: desiredKeys_def turnThreshold_def noKeys_def)
  have init: "currentNavKeys ?c = noKeys" "\<not> keyDown ?c ''keyA''" "\<not> keyDown ?c ''keyD''"
    "currentNavKeys ?l = noKeys" "\<not> keyDown ?l ''keyW''"
    by (simp_all add: navigateTo_fresh keyDown_def)
       (simp_all add: newControls_def initialSlots_def commonKeys_def buttonOf_def
          createButtonState_def)
  note mC = navigationTick_steering[OF c1 c2 c3 b facing_pose farC aC]
  note mL = navigationTick_steering[OF l1 l2 l3 b facing_pose farL aL]
  note mU = navigationTick_steering[OF u1 u2 u3 bu up_pose farC aU]
  have tC: "navigationTick ?c = applyKeys (desiredKeys 0) ?c"
    and sC: "currentNavKeys (navigationTick ?c) = desiredKeys 0"
    using mC fw by blast+
  have tL: "navigationTick ?l = applyKeys (desiredKeys (- (pi / 2))) ?l"
    and sL: "currentNavKeys (navigationTick ?l) = desiredKeys (- (pi / 2))"
    using mL fw by blast+
  have tU: "navigationTick ?u = holdPosition ?u"
    using mU fu by blast
  have kC: "keyDown (navigationTick ?c) ''keyW'' \<and> \<not> keyDown (navigationTick ?c) ''keyA''
      \<and> \<not> keyDown (navigationTick ?c) ''keyD''"
    unfolding tC by (simp add: applyKeys_keyDown d0 init noKeys_def)
  have kL: "keyDown (navigationTick ?l) ''keyA'' \<and> \<not> keyDown (navigationTick ?l) ''keyW''"
    unfolding tL by (simp add: applyKeys_keyDown dL init noKeys_def)
  have f1: "NAVIGATION_STOP_DISTANCE < sqrt ((0 - 0)\<^sup>2 + (0 - 5)\<^sup>2)"
    "NAVIGATION_STOP_DISTANCE < sqrt ((0 - (- 5))\<^sup>2 + (0 - 0)\<^sup>2)"
    by (simp_all add: NAVIGATION_STOP_DISTANCE_def sqrt25)
  have sC': "currentNavKeys (navigationTick ?c)
      = \<lparr>forward = True, backward = False, left = False, right = False\<rparr>"
    using sC d0 by simp
  have sL': "currentNavKeys (navigationTick ?l)
      = \<lparr>forward = False, backward = False, left = True, right = False\<rparr>"
    using sL dL by simp
  show ?thesis
    using c1 c2 facing_forward f1 sC' kC sL' kL fu tU by blast
qed

subsection \<open>Jump and crouch\<close>

lemma performJump_fields:
  "isJumping (performJump p c) = isJumping c"
  "lastJumpTime (performJump p c) = lastJumpTime c"
  "jumpCooldown (performJump p c) = jumpCooldown c"
  "timeouts (performJump p c) = timeouts c"
  "world (performJump p c) = world c"
  "isCrouching (performJump p c) = isCrouching c"
  by (simp_all add: performJump_def split: option.splits)

lemma jump_accepted:
  assumes "player (world c) = Some p" "\<not> isJumping c"
    "\<not> currentTime - lastJumpTime c < jumpCooldown c"
  shows "jump currentTime c =
     (performJump p (c\<lparr>isJumping := True, lastJumpTime := currentTime\<rparr>))
       \<lparr>timeouts := timeouts c @ [(800, JumpReset)]\<rparr>"
  using assms by (simp add: jump_def Let_def performJump_fields)

lemma jump_rejected:
  "isJumping c \<or> currentTime - lastJumpTime c < jumpCooldown c \<Longrightarrow> jump currentTime c = c"
  by (auto simp add: jump_def split: option.splits)

lemma validate_origin:
  "validatePlayerState (newControls originFacingPlusZ) = (True, newControls originFacingPlusZ)"
  by (simp add: validatePlayerState_def newControls_def originFacingPlusZ_def
      numericPosition_def numericQuaternion_def renormalized_def Let_def)

text \<open>
  C7. After a jump accepted at time \<open>t1\<close> (player present, no jump in flight, cooldown of
  1000 ms elapsed) the in-flight flag is set, the last-jump time is \<open>t1\<close>, and one timeout
  of 800 ms with the reset callback is pending, whatever the player's jump did. A second
  call while the jump is in flight returns the state unchanged; so does a call after the
  reset fired when less than 1000 ms have passed since \<open>t1\<close>; and in any state \<open>c'\<close> a call
  with a jump in flight or within the cooldown changes nothing. Firing the timeout clears
  the in-flight flag.
\<close>

theorem jump_cooldown_noop:
  assumes pl: "player (world c) = Some p"
    and idle: "\<not> isJumping c"
    and cd: "jumpCooldown c = 1000"
    and ready: "1000 \<le> t1 - lastJumpTime c"
  shows "(isJumping c' \<or> t2 - lastJumpTime c' < jumpCooldown c' \<longrightarrow> jump t2 c' = c')
    \<and> getIsJumping (jump t1 c) \<and> lastJumpTime (jump t1 c) = t1
    \<and> jumpCooldown (jump t1 c) = 1000
    \<and> timeouts (jump t1 c) = timeouts c @ [(800, JumpReset)]
    \<and> jump t2 (jump t1 c) = jump t1 c
    \<and> \<not> getIsJumping (fireTimeout r1 r2 (length (timeouts c)) (jump t1 c))
    \<and> timeouts (fireTimeout r1 r2 (length (timeouts c)) (jump t1 c)) = timeouts c
    \<and> (t2 - t1 < 1000 \<longrightarrow>
          jump t2 (fireTimeout r1 r2 (length (timeouts c)) (jump t1 c))
            = fireTimeout r1 r2 (length (timeouts c)) (jump t1 c))"
proof -
  have nr: "\<not> t1 - lastJumpTime c < jumpCooldown c" using cd ready by simp
  note acc = jump_accepted[OF pl idle nr]
  have f1: "isJumping (jump t1 c)" "lastJumpTime (jump t1 c) = t1"
    "timeouts (jump t1 c) = timeouts c @ [(800, JumpReset)]"
    "jumpCooldown (jump t1 c) = 1000"
    by (simp_all add: acc performJump_fields cd)
  have inflight: "jump t2 (jump t1 c) = jump t1 c"
    by (rule jump_rejected) (simp add: f1)
  let ?d = "fireTimeout r1 r2 (length (timeouts c)) (jump t1 c)"
  have fire: "?d = (jump t1 c)\<lparr>timeouts := timeouts c, isJumping := False\<rparr>"
    by (simp add: fireTimeout_def f1 runCallback_def)
  have f2: "\<not> isJumping ?d" "timeouts ?d = timeouts c" "lastJumpTime ?d = t1"
    "jumpCooldown ?d = 1000"
    by (simp_all add: fire f1)
  have cool: "t2 - t1 < 1000 \<Longrightarrow> jump t2 ?d = ?d"
    by (rule jump_rejected) (simp add: f2)
  have gen: "isJumping c' \<or> t2 - lastJumpTime c' < jumpCooldown c' \<Longrightarrow> jump t2 c' = c'"
    by (rule jump_rejected)
  show ?thesis
    using f1 inflight f2 cool gen by (simp add: getIsJumping_def)
qed

theorem jump_cooldown_noop_witness:
  "player (world (newControls throwingJump))
     = Some \<lparr>base = None, jumpFn = Some True, setHeightFn = None\<rparr>
   \<and> \<not> isJumping (newControls throwingJump)
   \<and> jumpCooldown (newControls throwingJump) = 1000
   \<and> 1000 \<le> 5000 - lastJumpTime (newControls throwingJump)
   \<and> getIsJumping (jump 5000 (newControls throwingJump))
   \<and> timeouts (jump 5000 (newControls throwingJump)) = [(800, JumpReset)]
   \<and> jump 5500 (jump 5000 (newControls throwingJump)) = jump 5000 (newControls throwingJump)
   \<and> (5500::int) - 5000 < 1000
   \<and> \<not> getIsJumping (fireTimeout 0 0 0 (jump 5000 (newControls throwingJump)))
   \<and> jump 5500 (fireTimeout 0 0 0 (jump 5000 (newControls throwingJump)))
       = fireTimeout 0 0 0 (jump 5000 (newControls throwingJump))"
proof -
  let ?c = "newControls throwingJump"
  have h1: "player (world ?c) = Some \<lparr>base = None, jumpFn = Some True, setHeightFn = None\<rparr>"
    by (simp add: newControls_def throwingJump_def)
  have h2: "\<not> isJumping ?c" by (simp add: newControls_def)
  have h3: "jumpCooldown ?c = 1000" by (simp add: newControls_def)
  have h4: "1000 \<le> 5000 - lastJumpTime ?c" by (simp add: newControls_def)
  have t0: "timeouts ?c = []" by (simp add: newControls_def)
  note main = jump_cooldown_noop[OF h1 h2 h3 h4, of _ 5500 0 0, unfolded t0]
  show ?thesis
    using h1 h2 h3 h4 main by simp
qed

text \<open>
  C3. Specified: in no state reached by calls of \<^verbatim>\<open>jump()\<close> and \<^verbatim>\<open>toggleCrouch()\<close> do
  a jump in flight and an active crouch coincide. In the code, the sequence
  \<^verbatim>\<open>toggleCrouch()\<close>, then an accepted \<^verbatim>\<open>jump()\<close>, leaves both
  \<^verbatim>\<open>getIsJumping()\<close> and \<^verbatim>\<open>getIsCrouching()\<close> true: \<^verbatim>\<open>jump\<close> never touches the crouch
  flag, only \<^verbatim>\<open>toggleCrouch\<close> looks at the jump flag.
\<close>

theorem jump_keeps_crouch:
  "getIsCrouching (toggleCrouch (newControls originFacingPlusZ))
   \<and> \<not> getIsJumping (toggleCrouch (newControls originFacingPlusZ))
   \<and> getIsJumping (jump 5000 (toggleCrouch (newControls originFacingPlusZ)))
   \<and> getIsCrouching (jump 5000 (toggleCrouch (newControls originFacingPlusZ)))
   \<and> runMotions [ToggleCrouch, Jump 5000] (newControls originFacingPlusZ)
       = jump 5000 (toggleCrouch (newControls originFacingPlusZ))"
proof -
  let ?c = "toggleCrouch (newControls originFacingPlusZ)"
  have tc: "?c = (setKey ''controlLeft'' True ((newControls originFacingPlusZ)\<lparr>isCrouching := True\<rparr>))"
    by (simp add: toggleCrouch_def validate_origin Let_def)
       (simp add: newControls_def originFacingPlusZ_def)
  have pl: "player (world ?c) = player originFacingPlusZ"
    by (simp add: tc) (simp add: newControls_def)
  have flags: "isCrouching ?c" "\<not> isJumping ?c" "lastJumpTime ?c = 0" "jumpCooldown ?c = 1000"
    by (simp_all add: tc) (simp_all add: newControls_def)
  have j: "isJumping (jump 5000 ?c) \<and> isCrouching (jump 5000 ?c)"
    using pl flags
    by (simp add: jump_def Let_def performJump_fields originFacingPlusZ_def)
  have seq: "runMotions [ToggleCrouch, Jump 5000] (newControls originFacingPlusZ)
      = jump 5000 ?c"
    by (simp add: runMotions_def)
  show ?thesis using flags j seq by (simp add: getIsCrouching_def getIsJumping_def)
qed

subsection \<open>Random walk\<close>

lemma navigateTo_valid:
  assumes "player (world c) = Some p" "base p = Some b"
    "positionXZNumeric (position b)" "quaternionNumeric (quaternion b)"
  shows "isNavigating (navigateTo x z c)"
    "navigationTarget (navigateTo x z c) = Some \<lparr>vx = x, vy = 0, vz = z\<rparr>"
    "world (navigateTo x z c) = world c"
    "isWalkingRandomly (navigateTo x z c)
       = (isWalkingRandomly c \<and> \<not> (isNavigating c \<or> navigationIntervalId c \<noteq> None))"
proof -
  let ?s = "stopNavigation ''starting new navigation'' c"
  have nt: "navigateTo x z c =
      (?s\<lparr>navigationTarget := Some \<lparr>vx = x, vy = 0, vz = z\<rparr>, isNavigating := True,
           stopReason := None, currentNavKeys := noKeys\<rparr>)
        \<lparr>navigationIntervalId := Some (nextTimerId ?s), nextTimerId := Suc (nextTimerId ?s)\<rparr>"
    using assms by (simp add: navigateTo_def Let_def stopNavigation_flags)
  have w: "world ?s = world c"
    by (cases "isNavigating c \<or> navigationIntervalId c \<noteq> None")
       (simp_all add: stopNavigation_active stopNavigation_stopped)
  have r: "isWalkingRandomly ?s
       = (isWalkingRandomly c \<and> \<not> (isNavigating c \<or> navigationIntervalId c \<noteq> None))"
    by (cases "isNavigating c \<or> navigationIntervalId c \<noteq> None")
       (simp_all add: stopNavigation_active stopNavigation_stopped)
  show "isNavigating (navigateTo x z c)"
    "navigationTarget (navigateTo x z c) = Some \<lparr>vx = x, vy = 0, vz = z\<rparr>"
    "world (navigateTo x z c) = world c"
    "isWalkingRandomly (navigateTo x z c)
       = (isWalkingRandomly c \<and> \<not> (isNavigating c \<or> navigationIntervalId c \<noteq> None))"
    by (simp_all add: nt w r)
qed

lemma navigateTo_origin:
  assumes "world c = originFacingPlusZ"
  shows "isNavigating (navigateTo x z c)"
    "navigationTarget (navigateTo x z c) = Some \<lparr>vx = x, vy = 0, vz = z\<rparr>"
    "world (navigateTo x z c) = originFacingPlusZ"
    "isWalkingRandomly (navigateTo x z c)
       = (isWalkingRandomly c \<and> \<not> (isNavigating c \<or> navigationIntervalId c \<noteq> None))"
proof -
  let ?b = "\<lparr>position = Some \<lparr>isVector3 = True, px = Some 0, py = Some 0, pz = Some 0\<rparr>,
          quaternion = Some \<lparr>isQuaternion = True, rx = Some 0, ry = Some 1,
                             rz = Some 0, rw = Some 0\<rparr>\<rparr>"
  let ?p = "\<lparr>base = Some ?b, jumpFn = None, setHeightFn = None\<rparr>"
  have h1: "player (world c) = Some ?p" by (simp add: assms originFacingPlusZ_def)
  have h2: "base ?p = Some ?b" by simp
  have h3: "positionXZNumeric (position ?b)" by (simp add: positionXZNumeric_def)
  have h4: "quaternionNumeric (quaternion ?b)" by (simp add: quaternionNumeric_def)
  note v = navigateTo_valid[OF h1 h2 h3 h4]
  show "isNavigating (navigateTo x z c)"
    "navigationTarget (navigateTo x z c) = Some \<lparr>vx = x, vy = 0, vz = z\<rparr>"
    "world (navigateTo x z c) = originFacingPlusZ"
    "isWalkingRandomly (navigateTo x z c)
       = (isWalkingRandomly c \<and> \<not> (isNavigating c \<or> navigationIntervalId c \<noteq> None))"
    by (simp_all add: v assms)
qed

text \<open>
  C2. Specified: a \<^verbatim>\<open>navigateTo\<close> issued by the random-walk tick for a new leg
  leaves the random walk active. In the code, the first leg keeps the walk active only
  because no navigation was running; the tick that starts the next leg while the first
  is still navigating calls \<^verbatim>\<open>stopNavigation("starting new navigation")\<close>, which stops
  the random walk: \<^verbatim>\<open>getIsWalkingRandomly()\<close> is false afterwards.
\<close>

theorem randomWalk_second_leg_stops_walk:
  "getIsWalkingRandomly walkStarted
   \<and> getIsWalkingRandomly walkFirstLeg \<and> getIsNavigating walkFirstLeg
   \<and> getIsNavigating walkSecondLeg \<and> \<not> getIsWalkingRandomly walkSecondLeg"
proof -
  have s0: "isWalkingRandomly walkStarted" "\<not> isNavigating walkStarted"
    "navigationIntervalId walkStarted = None" "world walkStarted = originFacingPlusZ"
    by (simp_all add: walkStarted_def startRandomWalk_def newControls_def Let_def)
  have leg1: "walkFirstLeg = navigateTo
      (vx (randomWalkPosition (world walkStarted))
         + cos (0 * pi * 2) * (1/2 * randomWalkMaxDistance walkStarted))
      (vz (randomWalkPosition (world walkStarted))
         + sin (0 * pi * 2) * (1/2 * randomWalkMaxDistance walkStarted)) walkStarted"
    using s0(1) by (simp add: walkFirstLeg_def randomWalkTick_def Let_def)
  note v1 = navigateTo_origin[OF s0(4)]
  have s1: "isWalkingRandomly walkFirstLeg" "isNavigating walkFirstLeg"
    "world walkFirstLeg = originFacingPlusZ"
    unfolding leg1 by (simp_all add: v1 s0)
  have leg2: "walkSecondLeg = navigateTo
      (vx (randomWalkPosition (world walkFirstLeg))
         + cos (1/4 * pi * 2) * (1/2 * randomWalkMaxDistance walkFirstLeg))
      (vz (randomWalkPosition (world walkFirstLeg))
         + sin (1/4 * pi * 2) * (1/2 * randomWalkMaxDistance walkFirstLeg)) walkFirstLeg"
    using s1(1) by (simp add: walkSecondLeg_def randomWalkTick_def Let_def)
  note v2 = navigateTo_origin[OF s1(3)]
  have s2: "\<not> isWalkingRandomly walkSecondLeg" "isNavigating walkSecondLeg"
    unfolding leg2 by (simp_all add: v2 s1)
  show ?thesis
    using s0 s1 s2 by (simp add: getIsWalkingRandomly_def getIsNavigating_def)
qed

subsection \<open>Facts about the service\<close>

lemma stops_connected:
  "isConnectedState (stopSimulation s) = isConnectedState s"
  "isConnectedState (stopEntityUpdates s) = isConnectedState s"
  "isConnectedState (stopAppearancePolling s) = isConnectedState s"
  "isConnectedState (shutdownWorld w s) = isConnectedState s"
  "isConnectedState (boundCalls call s) = isConnectedState s"
  "isConnectedState (firstBoundCall call s) = isConnectedState s"
  by (simp_all add: stopSimulation_def stopEntityUpdates_def stopAppearancePolling_def
      shutdownWorld_def boundCalls_def firstBoundCall_def)

lemma stops_tick:
  "tickIntervalId (stopSimulation s) = None"
  "tickIntervalId (stopEntityUpdates s) = tickIntervalId s"
  "tickIntervalId (stopAppearancePolling s) = tickIntervalId s"
  "tickIntervalId (shutdownWorld w s) = tickIntervalId s"
  "tickIntervalId (boundCalls call s) = tickIntervalId s"
  "tickIntervalId (firstBoundCall call s) = tickIntervalId s"
  by (simp_all add: stopSimulation_def stopEntityUpdates_def stopAppearancePolling_def
      shutdownWorld_def boundCalls_def firstBoundCall_def)

lemma stops_calls:
  "serviceCalls (stopSimulation s) = serviceCalls s"
  "serviceCalls (stopEntityUpdates s) = serviceCalls s"
  "serviceCalls (stopAppearancePolling s) = serviceCalls s"
  "nextBound (stopSimulation s) = nextBound s"
  "nextBound (stopEntityUpdates s) = nextBound s"
  "nextBound (stopAppearancePolling s) = nextBound s"
  by (simp_all add: stopSimulation_def stopEntityUpdates_def stopAppearancePolling_def)

lemma stops_world:
  "serviceWorld (stopSimulation s) = serviceWorld s"
  "serviceWorld (stopEntityUpdates s) = serviceWorld s"
  "serviceWorld (stopAppearancePolling s) = serviceWorld s"
  by (simp_all add: stopSimulation_def stopEntityUpdates_def stopAppearancePolling_def)



lemma handleDisconnect_stops:
  assumes "isConnectedState s \<or> serviceWorld s \<noteq> None"
  shows "\<not> isConnectedState (snd (handleDisconnect s))"
    "tickIntervalId (snd (handleDisconnect s)) = None"
  using assms
  by (auto simp add: handleDisconnect_def Let_def stops_connected stops_world stops_tick
      clearSession_def split: option.splits)


lemma handleDisconnect_calls:
  assumes "serviceWorld s = Some w" and "entitiesOffFn w = Some None"
  shows "serviceCalls (snd (handleDisconnect s)) =
     serviceCalls s @
       [EntitiesOff ''entityAdded'' (nextBound s), EntitiesOff ''entityModified'' (nextBound s + 1),
        EntitiesOff ''entityRemoved'' (nextBound s + 2)] @ shutdownCalls w"
  using assms
  by (simp add: handleDisconnect_def Let_def stops_world stops_calls clearSession_def
      shutdownWorld_def boundCalls_def)

lemma handleDisconnect_aborted:
  assumes "serviceWorld s = Some w" and "entitiesOffFn w = Some (Some e)"
  shows "fst (handleDisconnect s) = Some e"
    "serviceWorld (snd (handleDisconnect s)) = Some w"
    "serviceControls (snd (handleDisconnect s)) = serviceControls s"
    "currentEntities (snd (handleDisconnect s)) = currentEntities s"
    "processedMsgIds (snd (handleDisconnect s)) = processedMsgIds s"
  using assms
  by (simp_all add: handleDisconnect_def Let_def stops_world firstBoundCall_def
      stopSimulation_def stopEntityUpdates_def stopAppearancePolling_def)

lemma stop_fields:
  "tickIntervalId (stopSimulation s) = None"
  "isConnectedState (stopSimulation s) = isConnectedState s"
  "serviceWorld (stopSimulation s) = serviceWorld s"
  "tickLog (stopSimulation s) = tickLog s"
  by (simp_all add: stopSimulation_def)

lemma logTickError_fields:
  "tickIntervalId (logTickError now e s) = tickIntervalId s"
  "isConnectedState (logTickError now e s) = isConnectedState s"
  "serviceWorld (logTickError now e s) = serviceWorld s"
  "nextTimer (logTickError now e s) = nextTimer s"
  by (simp_all add: logTickError_def split: tick_error.splits)

lemma tickLoop_running:
  assumes "serviceWorld s = Some w" "isConnectedState s" "tickIntervalId s \<noteq> None"
    "\<not> disconnectEvent res"
  shows "tickLoop now afterTick res s =
     (let s1 = (if tickFn w then (case thrown res of None \<Rightarrow> s | Some e \<Rightarrow> logTickError now e s)
                else s)
      in s1\<lparr>lastTickTime := now,
            tickIntervalId := Some (Timer (nextTimer s) (max 0 (tickIntervalMs - (afterTick - now)))),
            nextTimer := Suc (nextTimer s)\<rparr>)"
  using assms
  by (simp add: tickLoop_def Let_def allocTimer_def logTickError_fields split: option.splits)

subsection \<open>Simulation loop\<close>

text \<open>
  C9, as specified, has every exception of the world tick logged at a limited rate. Two
  failing ticks 20 ms apart that throw an error other than the \<^verbatim>\<open>ReferenceError\<close> for
  \<^verbatim>\<open>document\<close> are both logged.
\<close>

theorem tickLoop_logs_every_other_error:
  "tickLog (tickLoop 20 21 boomTick (tickLoop 0 1 boomTick liveService))
     = [TickErrorLogged 0 (OtherError ''boom''), TickErrorLogged 20 (OtherError ''boom'')]
   \<and> (20::real) - 0 \<le> tickErrorLogInterval"
proof -
  have first: "tickLoop 0 1 boomTick liveService =
      liveService\<lparr>tickLog := [TickErrorLogged 0 (OtherError ''boom'')], lastTickTime := 0,
                  tickIntervalId := Some (Timer 1 19), nextTimer := 2\<rparr>"
    by (simp add: tickLoop_def liveService_def liveWorld_def boomTick_def newService_def
        logTickError_def allocTimer_def tickIntervalMs_def HYPERFY_TICK_RATE_def Let_def)
  show ?thesis
    unfolding first
    by (simp add: tickLoop_def liveService_def liveWorld_def boomTick_def newService_def
        logTickError_def allocTimer_def tickIntervalMs_def HYPERFY_TICK_RATE_def Let_def
        tickErrorLogInterval_def)
qed

text \<open>
  C9, amended. While the service is connected, holds a world and the loop's timer handle
  is set, a run of \<^verbatim>\<open>tickLoop\<close> whose tick throws (or not) schedules the next run after
  \<open>max 0 (1000/50 - elapsed)\<close> ms and stays connected; the handle is cleared afterwards
  only if the service is no longer connected. The \<^verbatim>\<open>ReferenceError\<close> "document is not
  defined" is logged at most once per 10000 ms; any other error is logged at every
  failing tick. A run on a service without world or not connected clears the handle and
  logs nothing.
\<close>

theorem tickLoop_survives_failing_tick:
  assumes w: "serviceWorld s = Some w"
    and conn: "isConnectedState s"
    and run: "tickIntervalId s \<noteq> None"
  shows "(\<not> disconnectEvent res \<longrightarrow>
            tickIntervalId (tickLoop now afterTick res s)
              = Some (Timer (nextTimer s) (max 0 (1000 / 50 - (afterTick - now))))
            \<and> isConnectedState (tickLoop now afterTick res s)
            \<and> serviceWorld (tickLoop now afterTick res s) = Some w)
    \<and> (tickIntervalId (tickLoop now afterTick res s) = None \<longrightarrow>
            \<not> isConnectedState (tickLoop now afterTick res s))
    \<and> (\<not> disconnectEvent res \<and> thrown res = Some DocumentNotDefined
          \<and> now - lastTickErrorLogTime s \<le> 10000 \<longrightarrow>
            tickLog (tickLoop now afterTick res s) = tickLog s)
    \<and> (\<not> disconnectEvent res \<and> tickFn w \<and> thrown res = Some DocumentNotDefined
          \<and> 10000 < now - lastTickErrorLogTime s \<longrightarrow>
            tickLog (tickLoop now afterTick res s) = tickLog s @ [SuppressedWarning now]
            \<and> lastTickErrorLogTime (tickLoop now afterTick res s) = now)
    \<and> (\<not> disconnectEvent res \<and> tickFn w \<and> thrown res = Some (OtherError m) \<longrightarrow>
            tickLog (tickLoop now afterTick res s)
              = tickLog s @ [TickErrorLogged now (OtherError m)])
    \<and> (serviceWorld s0 = None \<or> \<not> isConnectedState s0 \<longrightarrow>
            tickIntervalId (tickLoop now afterTick res s0) = None
            \<and> tickLog (tickLoop now afterTick res s0) = tickLog s0)"
proof -
  have live: "\<not> disconnectEvent res \<Longrightarrow>
      tickIntervalId (tickLoop now afterTick res s)
              = Some (Timer (nextTimer s) (max 0 (1000 / 50 - (afterTick - now))))
            \<and> isConnectedState (tickLoop now afterTick res s)
            \<and> serviceWorld (tickLoop now afterTick res s) = Some w"
    using w conn
    by (simp add: tickLoop_running[OF w conn run] Let_def tickIntervalMs_def
        HYPERFY_TICK_RATE_def logTickError_fields split: option.splits)
  have stopped: "\<not> isConnectedState (tickLoop now afterTick res s)"
    if n: "tickIntervalId (tickLoop now afterTick res s) = None"
  proof (cases "disconnectEvent res")
    case False
    with live n show ?thesis by simp
  next
    case True
    have td: "\<not> isConnectedState (snd (handleDisconnect s))"
      "tickIntervalId (snd (handleDisconnect s)) = None"
      by (rule handleDisconnect_stops, simp add: conn)+
    show ?thesis
    proof (cases "tickFn w")
      case tf: True
      then show ?thesis
        using w conn True td
        by (simp add: tickLoop_def Let_def logTickError_fields split: option.splits)
    next
      case nf: False
      have "tickIntervalId (tickLoop now afterTick res s) \<noteq> None"
        using w conn run nf by (simp add: tickLoop_def Let_def)
      with n show ?thesis by simp
    qed
  qed
  have quiet: "\<not> disconnectEvent res \<and> thrown res = Some DocumentNotDefined
          \<and> now - lastTickErrorLogTime s \<le> 10000 \<Longrightarrow>
            tickLog (tickLoop now afterTick res s) = tickLog s"
    by (simp add: tickLoop_running[OF w conn run] Let_def logTickError_def
        tickErrorLogInterval_def)
  have warn: "\<not> disconnectEvent res \<and> tickFn w \<and> thrown res = Some DocumentNotDefined
          \<and> 10000 < now - lastTickErrorLogTime s \<Longrightarrow>
            tickLog (tickLoop now afterTick res s) = tickLog s @ [SuppressedWarning now]
            \<and> lastTickErrorLogTime (tickLoop now afterTick res s) = now"
    by (simp add: tickLoop_running[OF w conn run] Let_def logTickError_def
        tickErrorLogInterval_def)
  have other: "\<not> disconnectEvent res \<and> tickFn w \<and> thrown res = Some (OtherError m) \<Longrightarrow>
            tickLog (tickLoop now afterTick res s)
              = tickLog s @ [TickErrorLogged now (OtherError m)]"
    by (simp add: tickLoop_running[OF w conn run] Let_def logTickError_def)
  have dead: "serviceWorld s0 = None \<or> \<not> isConnectedState s0 \<Longrightarrow>
            tickIntervalId (tickLoop now afterTick res s0) = None
            \<and> tickLog (tickLoop now afterTick res s0) = tickLog s0"
    by (auto simp add: tickLoop_def stop_fields split: option.splits)
  show ?thesis
    using live stopped quiet warn other dead by blast
qed

theorem tickLoop_survives_failing_tick_witness:
  "serviceWorld liveService = Some liveWorld \<and> isConnectedState liveService
   \<and> tickIntervalId liveService \<noteq> None
   \<and> \<not> disconnectEvent docTick \<and> thrown docTick = Some DocumentNotDefined
   \<and> (5::real) - lastTickErrorLogTime liveService \<le> 10000
   \<and> tickIntervalId (tickLoop 5 8 docTick liveService) = Some (Timer 1 17)
   \<and> tickLog (tickLoop 5 8 docTick liveService) = []
   \<and> tickIntervalId (tickLoop 5 35 docTick liveService) = Some (Timer 1 0)
   \<and> serviceWorld newService = None
   \<and> tickIntervalId (tickLoop 5 8 docTick newService) = None"
proof -
  have h: "serviceWorld liveService = Some liveWorld" "isConnectedState liveService"
    "tickIntervalId liveService \<noteq> None" "nextTimer liveService = 1"
    "lastTickErrorLogTime liveService = 0" "tickLog liveService = []"
    by (simp_all add: liveService_def newService_def)
  have d: "\<not> disconnectEvent docTick" "thrown docTick = Some DocumentNotDefined"
    by (simp_all add: docTick_def)
  have n: "serviceWorld newService = None" by (simp add: newService_def)
  show ?thesis
    using tickLoop_survives_failing_tick[OF h(1,2,3), of docTick 5 8 _ newService]
      tickLoop_survives_failing_tick[OF h(1,2,3), of docTick 5 35 _ newService]
    by (simp add: h d n)
qed

subsection \<open>Connect and teardown\<close>














lemma connect_unfold:
  assumes "connectEntry s = (None, s0)"
    and "connectBody env (preConnect cfg s0) = (Some e, s2)"
  shows "connect env cfg s =
     (case handleDisconnect s2 of (Some e', s3) \<Rightarrow> (Some e', s3) | (None, s3) \<Rightarrow> (Some e, s3))"
  by (simp add: connect_def assms)




text \<open>
  When \<^verbatim>\<open>entities.off\<close> throws, the teardown in the \<^verbatim>\<open>catch\<close> block is cut short: the
  caller sees the error of \<^verbatim>\<open>entities.off\<close> instead of the one that made \<^verbatim>\<open>connect\<close>
  fail, and world and controls stay referenced.
\<close>

lemma connect_teardown_cut_short:
  "fst (connect offThrows someConfig newService) = Some (Error ''off failed'')
   \<and> serviceWorld (snd (connect offThrows someConfig newService)) = Some (createdWorld offThrows)
   \<and> serviceControls (snd (connect offThrows someConfig newService)) \<noteq> None"
proof -
  let ?s1 = "preConnect someConfig newService"
  let ?s2 = "?s1\<lparr>serviceWorld := Some (createdWorld offThrows),
               serviceControls := Some (newControls (scene (createdWorld offThrows)))\<rparr>"
  have entry: "connectEntry newService = (None, newService)"
    by (simp add: connectEntry_def newService_def)
  have body: "connectBody offThrows ?s1 = (Some (Error ''init failed''), ?s2)"
    by (simp add: connectBody_def setupSteps_def mayThrow_def stepInit_def offThrows_def
        liveWorld_def)
  have w: "serviceWorld ?s2 = Some (createdWorld offThrows)" by simp
  have off: "entitiesOffFn (createdWorld offThrows) = Some (Some (Error ''off failed''))"
    by (simp add: offThrows_def)
  note ab = handleDisconnect_aborted[OF w off]
  have hd: "handleDisconnect ?s2 = (Some (Error ''off failed''), snd (handleDisconnect ?s2))"
    using ab(1) by (simp add: prod_eq_iff)
  have c: "connect offThrows someConfig newService
      = (Some (Error ''off failed''), snd (handleDisconnect ?s2))"
    unfolding connect_unfold[OF entry body] by (subst hd) simp
  show ?thesis
    using ab(2,3) by (simp add: c)
qed

text \<open>
  The function objects passed to \<^verbatim>\<open>entities.off\<close> during teardown are not those that
  \<^verbatim>\<open>entities.on\<close> registered: their identities are new.
\<close>

lemma teardown_off_is_newly_bound:
  assumes "serviceWorld s = Some w" and "entitiesOffFn w = Some None"
    and "\<forall>ev n. EntitiesOn ev n \<in> set (serviceCalls s) \<longrightarrow> n < nextBound s"
    and "EntitiesOff ev n \<in> set (serviceCalls (snd (handleDisconnect s)))"
    and "EntitiesOff ev n \<notin> set (serviceCalls s)"
  shows "EntitiesOn ev' n \<notin> set (serviceCalls (snd (handleDisconnect s)))"
proof -
  have calls: "serviceCalls (snd (handleDisconnect s)) =
     serviceCalls s @
       [EntitiesOff ''entityAdded'' (nextBound s), EntitiesOff ''entityModified'' (nextBound s + 1),
        EntitiesOff ''entityRemoved'' (nextBound s + 2)] @ shutdownCalls w"
    by (rule handleDisconnect_calls[OF assms(1,2)])
  have sd: "EntitiesOff ev n \<notin> set (shutdownCalls w)" "EntitiesOn ev' n \<notin> set (shutdownCalls w)"
    by (auto simp add: shutdownCalls_def split: option.splits)
  have ge: "nextBound s \<le> n"
    using assms(4,5) sd(1) by (auto simp add: calls)
  have "EntitiesOn ev' n \<notin> set (serviceCalls s)"
  proof
    assume "EntitiesOn ev' n \<in> set (serviceCalls s)"
    then have "n < nextBound s" using assms(3) by blast
    then show False using ge by simp
  qed
  then show ?thesis using sd(2) by (simp add: calls)
qed

subsection \<open>Chat deduplication\<close>

lemma chatStep_snd:
  "0 < t \<Longrightarrow> snd (chatStep t m (ids, new)) =
     (if t < messageTimestamp m \<and> (\<exists>i. msgId m = Some i \<and> i \<noteq> [] \<and> i \<notin> ids)
      then new @ [m] else new)"
  by (auto simp add: chatStep_def split: option.splits)

lemma chatStep_fst:
  "fst (chatStep t m (ids, new)) = (case truthyId m of None \<Rightarrow> ids | Some i \<Rightarrow> insert i ids)"
  by (auto simp add: chatStep_def truthyId_def split: option.splits)

lemma historyIds_Cons:
  "historyIds (m # ms) = (case truthyId m of None \<Rightarrow> {} | Some i \<Rightarrow> {i}) \<union> historyIds ms"
  by (simp add: historyIds_def List.map_filter_simps split: option.splits)

lemma historyIds_iff:
  "i \<in> historyIds ms \<longleftrightarrow> i \<noteq> [] \<and> (\<exists>m \<in> set ms. msgId m = Some i)"
  by (induction ms) (auto simp add: historyIds_Cons truthyId_def historyIds_def
      List.map_filter_simps split: option.splits if_splits)

lemma fold_fst:
  "fst (foldl (\<lambda>acc msg. chatStep t msg acc) (ids, new) batch) = ids \<union> historyIds batch"
proof (induction batch arbitrary: ids new)
  case Nil
  then show ?case by (simp add: historyIds_def List.map_filter_simps)
next
  case (Cons m ms)
  obtain ids1 new1 where st: "chatStep t m (ids, new) = (ids1, new1)"
    by (cases "chatStep t m (ids, new)")
  have i1: "ids1 = (case truthyId m of None \<Rightarrow> ids | Some i \<Rightarrow> insert i ids)"
    using chatStep_fst[of t m ids new] st by simp
  show ?case
    using Cons.IH[of ids1 new1]
    by (auto simp add: st i1 historyIds_Cons split: option.splits)
qed

lemma fold_count_seen:
  "X \<in> ids \<Longrightarrow> 0 < t \<Longrightarrow>
   countId X (snd (foldl (\<lambda>acc msg. chatStep t msg acc) (ids, new) batch)) = countId X new"
proof (induction batch arbitrary: ids new)
  case Nil
  then show ?case by simp
next
  case (Cons m ms)
  obtain ids1 new1 where st: "chatStep t m (ids, new) = (ids1, new1)"
    by (cases "chatStep t m (ids, new)")
  have i1: "X \<in> ids1"
    using chatStep_fst[of t m ids new] st Cons.prems(1) by (auto split: option.splits)
  have n1: "countId X new1 = countId X new"
    using chatStep_snd[OF Cons.prems(2), of m ids new] st Cons.prems(1)
    by (auto simp add: countId_def)
  show ?case
    using Cons.IH[OF i1 Cons.prems(2), of new1] by (simp add: st n1)
qed

lemma fold_count_fresh:
  assumes "0 < t" "X \<noteq> []" "X \<notin> ids"
    and "\<forall>m \<in> set batch. msgId m = Some X \<longrightarrow> t < messageTimestamp m"
  shows "countId X (snd (foldl (\<lambda>acc msg. chatStep t msg acc) (ids, new) batch))
     = countId X new + (if X \<in> historyIds batch then 1 else 0)"
  using assms(3,4)
proof (induction batch arbitrary: ids new)
  case Nil
  then show ?case by (simp add: historyIds_def List.map_filter_simps)
next
  case (Cons m ms)
  obtain ids1 new1 where st: "chatStep t m (ids, new) = (ids1, new1)"
    by (cases "chatStep t m (ids, new)")
  have fresh_rest: "\<forall>m \<in> set ms. msgId m = Some X \<longrightarrow> t < messageTimestamp m"
    using Cons.prems(2) by simp
  show ?case
  proof (cases "msgId m = Some X")
    case True
    have ts: "t < messageTimestamp m" using Cons.prems(2) True by simp
    have n1: "new1 = new @ [m]"
      using chatStep_snd[OF assms(1), of m ids new] st True ts assms(2) Cons.prems(1) by auto
    have i1: "X \<in> ids1"
      using chatStep_fst[of t m ids new] st True assms(2) by (simp add: truthyId_def)
    have "countId X (snd (foldl (\<lambda>acc msg. chatStep t msg acc) (ids1, new1) ms))
        = countId X new1"
      by (rule fold_count_seen[OF i1 assms(1)])
    moreover have "X \<in> historyIds (m # ms)"
      using True assms(2) by (simp add: historyIds_iff)
    ultimately show ?thesis
      using True by (simp add: st n1 countId_def)
  next
    case False
    have i1: "X \<notin> ids1"
      using chatStep_fst[of t m ids new] st False Cons.prems(1)
      by (auto simp add: truthyId_def split: option.splits if_splits)
    have n1: "countId X new1 = countId X new"
      using chatStep_snd[OF assms(1), of m ids new] st False by (auto simp add: countId_def)
    have h: "(X \<in> historyIds (m # ms)) = (X \<in> historyIds ms)"
      using False by (auto simp add: historyIds_iff)
    show ?thesis
      using Cons.IH[OF i1 fresh_rest, of new1] by (simp add: st n1 h)
  qed
qed

lemma fold_ids_marked:
  assumes "\<forall>m \<in> set new. \<exists>i. msgId m = Some i \<and> i \<in> ids"
  shows "\<forall>m \<in> set (snd (foldl (\<lambda>acc msg. chatStep t msg acc) (ids, new) batch)).
           \<exists>i. msgId m = Some i
             \<and> i \<in> fst (foldl (\<lambda>acc msg. chatStep t msg acc) (ids, new) batch)"
  using assms
proof (induction batch arbitrary: ids new)
  case Nil
  then show ?case by simp
next
  case (Cons m ms)
  obtain ids1 new1 where st: "chatStep t m (ids, new) = (ids1, new1)"
    by (cases "chatStep t m (ids, new)")
  have inv: "\<forall>m \<in> set new1. \<exists>i. msgId m = Some i \<and> i \<in> ids1"
    using st Cons.prems
    by (auto simp add: chatStep_def split: option.splits if_splits)
  show ?case using Cons.IH[OF inv] by (simp add: st)
qed

lemma chatCallback_ready:
  assumes "chatReady s" "connectionTime s = Some t"
  shows "dispatched (chatCallback batch s)
           = dispatched s @ snd (identifyNew t batch (processedMsgIds s))"
    "processedMsgIds (chatCallback batch s) = fst (identifyNew t batch (processedMsgIds s))"
    "chatReady (chatCallback batch s)"
    "connectionTime (chatCallback batch s) = Some t"
proof -
  obtain ids new where idn: "identifyNew t batch (processedMsgIds s) = (ids, new)"
    by (cases "identifyNew t batch (processedMsgIds s)")
  have cc: "chatCallback batch s = s\<lparr>processedMsgIds := ids, dispatched := dispatched s @ new\<rparr>"
    using assms by (simp add: chatCallback_def dispatchAll_def idn)
  show "dispatched (chatCallback batch s)
           = dispatched s @ snd (identifyNew t batch (processedMsgIds s))"
    "processedMsgIds (chatCallback batch s) = fst (identifyNew t batch (processedMsgIds s))"
    "connectionTime (chatCallback batch s) = Some t"
    by (simp_all add: cc idn assms(2))
  show "chatReady (chatCallback batch s)"
    using assms(1) by (auto simp add: cc chatReady_def split: option.splits)
qed

lemma runBatches_Cons: "runBatches (b # bs) s = runBatches bs (chatCallback b s)"
  by (simp add: runBatches_def)

lemma runBatches_seen:
  assumes "chatReady s" "connectionTime s = Some t" "0 < t" "X \<in> processedMsgIds s"
  shows "countId X (dispatched (runBatches batches s)) = countId X (dispatched s)"
  using assms(1,2,4)
proof (induction batches arbitrary: s)
  case Nil
  then show ?case by (simp add: runBatches_def)
next
  case (Cons b bs)
  note cb = chatCallback_ready[OF Cons.prems(1,2), of b]
  have seen: "X \<in> processedMsgIds (chatCallback b s)"
    using Cons.prems(3) by (simp add: cb(2) identifyNew_def fold_fst)
  have cnt: "countId X (dispatched (chatCallback b s)) = countId X (dispatched s)"
    using fold_count_seen[OF Cons.prems(3) assms(3), of "[]" b]
    by (simp add: cb(1) identifyNew_def countId_def)
  show ?case
    using Cons.IH[OF cb(3) cb(4) seen] by (simp add: runBatches_Cons cnt)
qed

lemma runBatches_fresh:
  assumes "0 < t" "X \<noteq> []"
    and "chatReady s" "connectionTime s = Some t" "X \<notin> processedMsgIds s"
    and "\<forall>b \<in> set batches. \<forall>m \<in> set b. msgId m = Some X \<longrightarrow> t < messageTimestamp m"
  shows "countId X (dispatched (runBatches batches s))
     = countId X (dispatched s)
       + (if \<exists>b \<in> set batches. \<exists>m \<in> set b. msgId m = Some X then 1 else 0)"
  using assms(3-6)
proof (induction batches arbitrary: s)
  case Nil
  then show ?case by (simp add: runBatches_def)
next
  case (Cons b bs)
  note cb = chatCallback_ready[OF Cons.prems(1,2), of b]
  have fresh_b: "\<forall>m \<in> set b. msgId m = Some X \<longrightarrow> t < messageTimestamp m"
    and fresh_bs: "\<forall>b \<in> set bs. \<forall>m \<in> set b. msgId m = Some X \<longrightarrow> t < messageTimestamp m"
    using Cons.prems(4) by simp_all
  have cnt: "countId X (dispatched (chatCallback b s))
      = countId X (dispatched s) + (if X \<in> historyIds b then 1 else 0)"
    using fold_count_fresh[OF assms(1,2) Cons.prems(3) fresh_b, of "[]"]
    by (simp add: cb(1) identifyNew_def countId_def)
  have ids: "processedMsgIds (chatCallback b s) = processedMsgIds s \<union> historyIds b"
    by (simp add: cb(2) identifyNew_def fold_fst)
  have hist: "(X \<in> historyIds b) = (\<exists>m \<in> set b. msgId m = Some X)"
    using assms(2) by (simp add: historyIds_iff)
  show ?case
  proof (cases "X \<in> historyIds b")
    case True
    then have seen: "X \<in> processedMsgIds (chatCallback b s)" by (simp add: ids)
    have "countId X (dispatched (runBatches bs (chatCallback b s)))
        = countId X (dispatched (chatCallback b s))"
      by (rule runBatches_seen[OF cb(3) cb(4) assms(1) seen])
    then show ?thesis using True cnt hist by (auto simp add: runBatches_Cons)
  next
    case False
    then have unseen: "X \<notin> processedMsgIds (chatCallback b s)"
      using Cons.prems(3) by (simp add: ids)
    show ?thesis
      using Cons.IH[OF cb(3) cb(4) unseen fresh_bs] False cnt hist
      by (auto simp add: runBatches_Cons)
  qed
qed

text \<open>
  C1, as specified, dispatches a message exactly when its timestamp is after the
  connection time and its id is not in the processed set. A message with the empty
  string as id, timestamp after the connection time, is not dispatched although its id
  is not in the set.
\<close>

theorem chat_empty_id_not_dispatched:
  "chatReady liveService \<and> connectionTime liveService = Some 1000
   \<and> 1000 < messageTimestamp msgEmptyId
   \<and> msgId msgEmptyId = Some [] \<and> [] \<notin> processedMsgIds liveService
   \<and> dispatched (chatCallback [msgEmptyId] liveService) = []"
  by (simp add: chatReady_def liveService_def newService_def liveWorld_def
      originFacingPlusZ_def msgEmptyId_def messageTimestamp_def chatCallback_def
      identifyNew_def chatStep_def dispatchAll_def)

text \<open>
  C1, amended. While the guard of the subscription callback passes (world, chat and player
  present, connection time \<open>t > 0\<close> recorded), one iteration over a message \<open>m\<close> adds it
  to the messages to dispatch iff its timestamp is strictly after \<open>t\<close> and its id is
  present, non-empty and not in the processed set; every present, non-empty id is in the
  set after the iteration. The callback dispatches exactly the messages found, in order,
  and each of them has its id in the processed set before the dispatch starts. Over any
  list of batches, an id \<open>X\<close> that is not yet processed, occurs in some batch and carries
  a timestamp after \<open>t\<close> wherever it occurs is dispatched exactly once; an id already
  processed is not dispatched again.
\<close>

theorem chat_dispatch_once:
  assumes ready: "chatReady s"
    and ct: "connectionTime s = Some t"
    and pos: "0 < t"
  shows "snd (chatStep t m (ids, new)) =
           (if t < messageTimestamp m \<and> (\<exists>i. msgId m = Some i \<and> i \<noteq> [] \<and> i \<notin> ids)
            then new @ [m] else new)
    \<and> (\<forall>i. msgId m = Some i \<and> i \<noteq> [] \<longrightarrow> i \<in> fst (chatStep t m (ids, new)))
    \<and> dispatched (chatCallback batch s)
         = dispatched s @ snd (identifyNew t batch (processedMsgIds s))
    \<and> processedMsgIds (chatCallback batch s) = fst (identifyNew t batch (processedMsgIds s))
    \<and> (\<forall>d \<in> set (snd (identifyNew t batch (processedMsgIds s))).
          \<exists>i. msgId d = Some i \<and> i \<in> fst (identifyNew t batch (processedMsgIds s)))
    \<and> (X \<noteq> [] \<and> X \<notin> processedMsgIds s
         \<and> (\<forall>b \<in> set batches. \<forall>d \<in> set b. msgId d = Some X \<longrightarrow> t < messageTimestamp d)
         \<and> (\<exists>b \<in> set batches. \<exists>d \<in> set b. msgId d = Some X) \<longrightarrow>
          countId X (dispatched (runBatches batches s)) = countId X (dispatched s) + 1)
    \<and> (X \<in> processedMsgIds s \<longrightarrow>
          countId X (dispatched (runBatches batches s)) = countId X (dispatched s))"
proof -
  have a: "snd (chatStep t m (ids, new)) =
           (if t < messageTimestamp m \<and> (\<exists>i. msgId m = Some i \<and> i \<noteq> [] \<and> i \<notin> ids)
            then new @ [m] else new)"
    by (rule chatStep_snd[OF pos])
  have b: "\<forall>i. msgId m = Some i \<and> i \<noteq> [] \<longrightarrow> i \<in> fst (chatStep t m (ids, new))"
    by (auto simp add: chatStep_fst truthyId_def)
  note cb = chatCallback_ready[OF ready ct, of batch]
  have d: "\<forall>d \<in> set (snd (identifyNew t batch (processedMsgIds s))).
          \<exists>i. msgId d = Some i \<and> i \<in> fst (identifyNew t batch (processedMsgIds s))"
    unfolding identifyNew_def by (rule fold_ids_marked) simp
  have e: "X \<noteq> [] \<and> X \<notin> processedMsgIds s
         \<and> (\<forall>b \<in> set batches. \<forall>d \<in> set b. msgId d = Some X \<longrightarrow> t < messageTimestamp d)
         \<and> (\<exists>b \<in> set batches. \<exists>d \<in> set b. msgId d = Some X) \<Longrightarrow>
          countId X (dispatched (runBatches batches s)) = countId X (dispatched s) + 1"
    using runBatches_fresh[OF pos _ ready ct, of X batches] by auto
  have f: "X \<in> processedMsgIds s \<Longrightarrow>
          countId X (dispatched (runBatches batches s)) = countId X (dispatched s)"
    by (rule runBatches_seen[OF ready ct pos])
  show ?thesis
    using a b cb(1) cb(2) d e f by blast
qed

theorem chat_dispatch_once_witness:
  "chatReady liveService \<and> connectionTime liveService = Some 1000 \<and> (0::int) < 1000
   \<and> ''X'' \<noteq> [] \<and> ''X'' \<notin> processedMsgIds liveService
   \<and> msgId msgX = Some ''X'' \<and> 1000 < messageTimestamp msgX
   \<and> msgId msgOld = Some ''old'' \<and> messageTimestamp msgOld = 500
   \<and> length fiveBatches = 5
   \<and> countId ''X'' (dispatched (runBatches fiveBatches liveService)) = 1
   \<and> countId ''old'' (dispatched (runBatches fiveBatches liveService)) = 0"
proof -
  have r: "chatReady liveService" "connectionTime liveService = Some 1000"
    "processedMsgIds liveService = {}" "dispatched liveService = []"
    by (simp_all add: chatReady_def liveService_def newService_def liveWorld_def
        originFacingPlusZ_def)
  have p: "(0::int) < 1000" by simp
  have fresh: "\<forall>b \<in> set fiveBatches. \<forall>d \<in> set b. msgId d = Some ''X'' \<longrightarrow> 1000 < messageTimestamp d"
    by (simp add: fiveBatches_def msgX_def msgOld_def messageTimestamp_def)
  have occurs: "\<exists>b \<in> set fiveBatches. \<exists>d \<in> set b. msgId d = Some ''X''"
    by (simp add: fiveBatches_def msgX_def)
  have old: "countId ''old'' (dispatched (runBatches fiveBatches liveService)) = 0"
    by (simp add: runBatches_def fiveBatches_def chatCallback_def r chatReady_def
        identifyNew_def chatStep_def dispatchAll_def msgX_def msgOld_def messageTimestamp_def
        countId_def)
  have once: "countId ''X'' (dispatched (runBatches fiveBatches liveService))
      = countId ''X'' (dispatched liveService) + 1"
    using chat_dispatch_once[OF r(1) r(2) p, of _ _ _ _ "''X''" fiveBatches] r(3) fresh occurs
    by simp
  have none: "countId ''X'' (dispatched liveService) = 0"
    by (simp add: r(4) countId_def)
  have one: "countId ''X'' (dispatched (runBatches fiveBatches liveService)) = 1"
    using once none by simp
  have facts: "msgId msgX = Some ''X''" "1000 < messageTimestamp msgX"
    "msgId msgOld = Some ''old''" "messageTimestamp msgOld = 500" "length fiveBatches = 5"
    by (simp_all add: msgX_def msgOld_def messageTimestamp_def fiveBatches_def)
  show ?thesis
    using r p one old facts by simp
qed

end
